theory Spec2Isabelle
  imports Main "HOL-Library.Word"
begin

section \<open>JavaScript strings, buffers and built-ins\<close>

text \<open>
  A JavaScript string is modelled as a \<^typ>\<open>string\<close>: the list of its code units, each
  below 256 (the Latin-1 range, which holds every string literal of the services). A
  \<open>Buffer\<close> is a list of bytes. Timestamps (\<open>Date.now()\<close>, \<open>new Date()\<close>) are integers,
  the milliseconds since the epoch; every clock read and every \<open>randomBytes\<close> result is
  an argument of the function that makes it, in the order the code makes them.
\<close>

type_synonym byte = "8 word"
type_synonym timestamp = int

text \<open>\<open>s.split(sep)\<close> for a separator of one character: always at least one part.\<close>

fun split :: "char \<Rightarrow> string \<Rightarrow> string list" where
  "split sep [] = [[]]"
| "split sep (c # cs) =
     (if c = sep then [] # split sep cs
      else (case split sep cs of p # ps \<Rightarrow> (c # p) # ps | [] \<Rightarrow> [[c]]))"

text \<open>\<open>s.includes(needle)\<close>.\<close>

fun startsWith :: "string \<Rightarrow> string \<Rightarrow> bool" where
  "startsWith s [] = True"
| "startsWith [] (n # ns) = False"
| "startsWith (c # cs) (n # ns) = (c = n \<and> startsWith cs ns)"

fun includes_str :: "string \<Rightarrow> string \<Rightarrow> bool" where
  "includes_str [] needle = (needle = [])"
| "includes_str (c # cs) needle = (startsWith (c # cs) needle \<or> includes_str cs needle)"

text \<open>
  \<open>s.toLowerCase()\<close> on code units below 256: \<open>A-Z\<close> and the Latin-1 capitals
  (\<open>0xC0-0xDE\<close> but the multiplication sign \<open>0xD7\<close>) move up by 32.
\<close>

definition upperUnits :: string where
  "upperUnits = ''ABCDEFGHIJKLMNOPQRSTUVWXYZ'' @
     [CHR 0xC0, CHR 0xC1, CHR 0xC2, CHR 0xC3, CHR 0xC4, CHR 0xC5, CHR 0xC6, CHR 0xC7,
      CHR 0xC8, CHR 0xC9, CHR 0xCA, CHR 0xCB, CHR 0xCC, CHR 0xCD, CHR 0xCE, CHR 0xCF,
      CHR 0xD0, CHR 0xD1, CHR 0xD2, CHR 0xD3, CHR 0xD4, CHR 0xD5, CHR 0xD6, CHR 0xD8,
      CHR 0xD9, CHR 0xDA, CHR 0xDB, CHR 0xDC, CHR 0xDD, CHR 0xDE]"

definition lowerUnits :: string where
  "lowerUnits = ''abcdefghijklmnopqrstuvwxyz'' @
     [CHR 0xE0, CHR 0xE1, CHR 0xE2, CHR 0xE3, CHR 0xE4, CHR 0xE5, CHR 0xE6, CHR 0xE7,
      CHR 0xE8, CHR 0xE9, CHR 0xEA, CHR 0xEB, CHR 0xEC, CHR 0xED, CHR 0xEE, CHR 0xEF,
      CHR 0xF0, CHR 0xF1, CHR 0xF2, CHR 0xF3, CHR 0xF4, CHR 0xF5, CHR 0xF6, CHR 0xF8,
      CHR 0xF9, CHR 0xFA, CHR 0xFB, CHR 0xFC, CHR 0xFD, CHR 0xFE]"

definition toLowerCase_unit :: "char \<Rightarrow> char" where
  "toLowerCase_unit c = (case map_of (zip upperUnits lowerUnits) c of Some l \<Rightarrow> l | None \<Rightarrow> c)"

definition toLowerCase :: "string \<Rightarrow> string" where
  "toLowerCase s = map toLowerCase_unit s"

text \<open>\<open>n.toString()\<close> for a non-negative integer.\<close>

fun toString_nat :: "nat \<Rightarrow> string" where
  "toString_nat n =
     (if n < 10 then [''0123456789'' ! n]
      else toString_nat (n div 10) @ [''0123456789'' ! (n mod 10)])"

text \<open>\<open>buf.toString('hex')\<close> and \<open>hash.digest('hex')\<close>: two lower-case digits a byte.\<close>

definition hexDigit :: "nat \<Rightarrow> char" where
  "hexDigit n = ''0123456789abcdef'' ! (n mod 16)"

definition toString_hex :: "byte list \<Rightarrow> string" where
  "toString_hex bs = concat (map (\<lambda>b. [hexDigit (unat b div 16), hexDigit (unat b mod 16)]) bs)"

text \<open>
  \<open>Buffer.from(s, 'hex')\<close>: pairs of hexadecimal digits of either case; decoding stops at
  the first pair that is not one, and a trailing single digit is dropped.
\<close>

definition hexValue :: "char \<Rightarrow> nat option" where
  "hexValue c = map_of
     [(CHR ''0'', 0), (CHR ''1'', 1), (CHR ''2'', 2), (CHR ''3'', 3), (CHR ''4'', 4),
      (CHR ''5'', 5), (CHR ''6'', 6), (CHR ''7'', 7), (CHR ''8'', 8), (CHR ''9'', 9),
      (CHR ''a'', 10), (CHR ''b'', 11), (CHR ''c'', 12), (CHR ''d'', 13), (CHR ''e'', 14),
      (CHR ''f'', 15), (CHR ''A'', 10), (CHR ''B'', 11), (CHR ''C'', 12), (CHR ''D'', 13),
      (CHR ''E'', 14), (CHR ''F'', 15)] c"

fun Buffer_from_hex :: "string \<Rightarrow> byte list" where
  "Buffer_from_hex (a # b # rest) =
     (case (hexValue a, hexValue b) of
        (Some x, Some y) \<Rightarrow> word_of_nat (16 * x + y) # Buffer_from_hex rest
      | _ \<Rightarrow> [])"
| "Buffer_from_hex _ = []"

text \<open>
  \<open>buf.toString('base64url')\<close> and \<open>hmac.digest('base64url')\<close>: the URL-safe alphabet,
  three bytes to four characters, no padding.
\<close>

definition base64urlAlphabet :: string where
  "base64urlAlphabet = ''ABCDEFGHIJKLMNOPQRSTUVWXYZabcdefghijklmnopqrstuvwxyz0123456789-_''"

definition base64urlChar :: "nat \<Rightarrow> char" where
  "base64urlChar n = base64urlAlphabet ! (n mod 64)"

fun toString_base64url :: "byte list \<Rightarrow> string" where
  "toString_base64url [] = []"
| "toString_base64url [a] =
     [base64urlChar (unat a div 4), base64urlChar (unat a mod 4 * 16)]"
| "toString_base64url [a, b] =
     [base64urlChar (unat a div 4), base64urlChar (unat a mod 4 * 16 + unat b div 16),
      base64urlChar (unat b mod 16 * 4)]"
| "toString_base64url (a # b # c # rest) =
     [base64urlChar (unat a div 4), base64urlChar (unat a mod 4 * 16 + unat b div 16),
      base64urlChar (unat b mod 16 * 4 + unat c div 64), base64urlChar (unat c mod 64)]
     @ toString_base64url rest"

text \<open>
  \<open>crypto.timingSafeEqual(a, b)\<close>: a \<open>RangeError\<close> (here \<open>None\<close>) when the byte lengths
  differ, else whether the buffers are equal.
\<close>

definition timingSafeEqual :: "byte list \<Rightarrow> byte list \<Rightarrow> bool option" where
  "timingSafeEqual a b = (if length a \<noteq> length b then None else Some (a = b))"

text \<open>
  The library functions whose results the model does not compute are the fields of a
  runtime: the two digests, the UTF-8 codec of \<open>Buffer\<close>, the decoding direction of
  base64url, and \<open>JSON\<close> on token payloads.
\<close>

record TokenPayload =
  userId :: string
  issuedAt :: timestamp
  expiresAt :: timestamp

record runtime =
  sha256 :: "string \<Rightarrow> byte list"
  hmacSha256 :: "string \<Rightarrow> string \<Rightarrow> byte list"
  Buffer_from_utf8 :: "string \<Rightarrow> byte list"
  toString_utf8 :: "byte list \<Rightarrow> string"
  Buffer_from_base64url :: "string \<Rightarrow> byte list"
  JSON_stringify :: "TokenPayload \<Rightarrow> string"
  JSON_parse :: "string \<Rightarrow> TokenPayload option"

section \<open>Errors\<close>

text \<open>
  The error classes of \<open>types/user.ts\<close> and the plain \<open>Error\<close>, each with the message
  its constructor builds.
\<close>

datatype error =
    Error string
  | UserNotFoundError string
  | InvalidCredentialsError
  | UserAlreadyExistsError string string
  | InsufficientPermissionsError string

fun message :: "error \<Rightarrow> string" where
  "message (Error m) = m"
| "message (UserNotFoundError identifier) = ''User not found: '' @ identifier"
| "message InvalidCredentialsError = ''Invalid email or password''"
| "message (UserAlreadyExistsError field v) =
     ''User with '' @ field @ '' '' @ [CHR 0x27] @ v @ [CHR 0x27] @ '' already exists''"
| "message (InsufficientPermissionsError requiredPermission) =
     ''Insufficient permissions: '' @ requiredPermission @ '' required''"

fun name :: "error \<Rightarrow> string" where
  "name (Error m) = ''Error''"
| "name (UserNotFoundError identifier) = ''UserNotFoundError''"
| "name InvalidCredentialsError = ''InvalidCredentialsError''"
| "name (UserAlreadyExistsError field v) = ''UserAlreadyExistsError''"
| "name (InsufficientPermissionsError requiredPermission) = ''InsufficientPermissionsError''"

section \<open>Password service\<close>

record PasswordValidationResult =
  isValid :: bool
  errors :: "string list"

definition MIN_PASSWORD_LENGTH :: nat where
  "MIN_PASSWORD_LENGTH = 8"

definition MAX_PASSWORD_LENGTH :: nat where
  "MAX_PASSWORD_LENGTH = 128"

text \<open>The character classes of the regular expressions of \<open>validatePasswordStrength\<close>.\<close>

definition isUpper :: "char \<Rightarrow> bool" where
  "isUpper c = (c \<in> set ''ABCDEFGHIJKLMNOPQRSTUVWXYZ'')"

definition isLower :: "char \<Rightarrow> bool" where
  "isLower c = (c \<in> set ''abcdefghijklmnopqrstuvwxyz'')"

definition isDigit :: "char \<Rightarrow> bool" where
  "isDigit c = (c \<in> set ''0123456789'')"

definition specialCharacters :: string where
  "specialCharacters =
     ''!@#$%^&*()_+-=[]{};'' @ [CHR 0x27] @ '':'' @ [CHR 0x22, CHR 0x5C] @ ''|,.<>/?''"

definition isSpecial :: "char \<Rightarrow> bool" where
  "isSpecial c = (c \<in> set specialCharacters)"

text \<open>
  The dot of a regular expression without the \<open>s\<close> flag matches every code unit but a
  line terminator; below 256 these are line feed and carriage return.
\<close>

definition dotMatches :: "char \<Rightarrow> bool" where
  "dotMatches c = (c \<noteq> CHR 0x0A \<and> c \<noteq> CHR 0x0D)"

text \<open>\<open>/(.)\1{2,}/.test(s)\<close>: a code unit the dot matches, then itself twice more.\<close>

fun hasTripleRepeat :: "string \<Rightarrow> bool" where
  "hasTripleRepeat (a # b # c # rest) =
     ((dotMatches a \<and> b = a \<and> c = a) \<or> hasTripleRepeat (b # c # rest))"
| "hasTripleRepeat _ = False"

definition commonPasswords :: "string list" where
  "commonPasswords = [''password'', ''123456'', ''qwerty'', ''admin'', ''letmein'']"

text \<open>\<open>errors.push(msg)\<close> under a condition.\<close>

definition pushIf :: "bool \<Rightarrow> string \<Rightarrow> string list \<Rightarrow> string list" where
  "pushIf cond msg errs = (if cond then errs @ [msg] else errs)"

definition validatePasswordStrength :: "string \<Rightarrow> PasswordValidationResult" where
  "validatePasswordStrength password =
     (let e0 = [];
          e1 = pushIf (length password < MIN_PASSWORD_LENGTH)
                 (''Password must be at least '' @ toString_nat MIN_PASSWORD_LENGTH
                    @ '' characters long'') e0;
          e2 = pushIf (length password > MAX_PASSWORD_LENGTH)
                 (''Password must be no more than '' @ toString_nat MAX_PASSWORD_LENGTH
                    @ '' characters long'') e1;
          e3 = pushIf (\<not> list_ex isUpper password)
                 ''Password must contain at least one uppercase letter'' e2;
          e4 = pushIf (\<not> list_ex isLower password)
                 ''Password must contain at least one lowercase letter'' e3;
          e5 = pushIf (\<not> list_ex isDigit password)
                 ''Password must contain at least one number'' e4;
          e6 = pushIf (\<not> list_ex isSpecial password)
                 ''Password must contain at least one special character'' e5;
          e7 = pushIf (hasTripleRepeat password)
                 ''Password cannot contain more than 2 consecutive identical characters'' e6;
          e8 = pushIf (list_ex (\<lambda>common. includes_str (toLowerCase password) common) commonPasswords)
                 ''Password cannot contain common words or patterns'' e7
      in \<lparr>isValid = (length e8 = 0), errors = e8\<rparr>)"

text \<open>\<open>validatePasswordInput\<close>: the type excludes a password that is not a string.\<close>

definition validatePasswordInput :: "string \<Rightarrow> error + unit" where
  "validatePasswordInput password =
     (if length password = 0 then Inl (Error ''Password cannot be empty'') else Inr ())"

text \<open>\<open>hashPassword\<close>; \<open>salt16\<close> is what \<open>randomBytes(16)\<close> returned.\<close>

definition hashPassword :: "runtime \<Rightarrow> byte list \<Rightarrow> string \<Rightarrow> error + string" where
  "hashPassword rt salt16 password =
     (case validatePasswordInput password of
        Inl e \<Rightarrow> Inl e
      | Inr _ \<Rightarrow>
          (let salt = toString_hex salt16;
               hash = toString_hex (sha256 rt (password @ salt))
           in Inr (salt @ '':'' @ hash)))"

text \<open>
  \<open>verifyPassword\<close>: the destructuring takes the first two parts of the record (a missing
  one is \<open>undefined\<close>, falsy like the empty string); whatever is thrown inside the
  \<open>try\<close> gives \<open>false\<close>.
\<close>

definition verifyPassword :: "runtime \<Rightarrow> string \<Rightarrow> string \<Rightarrow> bool" where
  "verifyPassword rt password hashedPassword =
     (case split CHR '':'' hashedPassword of
        salt # hash # _ \<Rightarrow>
          if salt = [] \<or> hash = [] then False
          else
            (let newHash = toString_hex (sha256 rt (password @ salt))
             in (case timingSafeEqual (Buffer_from_hex hash) (Buffer_from_hex newHash) of
                   None \<Rightarrow> False
                 | Some r \<Rightarrow> r))
      | _ \<Rightarrow> False)"

section \<open>Token service\<close>

record JWTTokenService =
  secret :: string
  revokedTokens :: "string set"

definition expirationHours :: int where
  "expirationHours = 24"

text \<open>
  The constructor: \<open>secret || this.generateSecret()\<close>, so a missing or empty secret is
  replaced by the hexadecimal form of \<open>random32\<close>, what \<open>randomBytes(32)\<close> returned.
\<close>

definition generateSecret :: "byte list \<Rightarrow> string" where
  "generateSecret random32 = toString_hex random32"

definition new_JWTTokenService :: "string option \<Rightarrow> byte list \<Rightarrow> JWTTokenService" where
  "new_JWTTokenService secretArg random32 =
     \<lparr>secret = (case secretArg of
                  None \<Rightarrow> generateSecret random32
                | Some s \<Rightarrow> if s = [] then generateSecret random32 else s),
      revokedTokens = {}\<rparr>"

definition createSignature :: "runtime \<Rightarrow> JWTTokenService \<Rightarrow> string \<Rightarrow> string" where
  "createSignature rt svc data = toString_base64url (hmacSha256 rt (secret svc) data)"

definition base64UrlEncode :: "runtime \<Rightarrow> string \<Rightarrow> string" where
  "base64UrlEncode rt data = toString_base64url (Buffer_from_utf8 rt data)"

definition base64UrlDecode :: "runtime \<Rightarrow> string \<Rightarrow> string" where
  "base64UrlDecode rt data = toString_utf8 rt (Buffer_from_base64url rt data)"

text \<open>\<open>JSON.stringify({alg: 'HS256', typ: 'JWT'})\<close>.\<close>

definition headerJson :: string where
  "headerJson =
     ''{'' @ [CHR 0x22] @ ''alg'' @ [CHR 0x22] @ '':'' @ [CHR 0x22] @ ''HS256'' @ [CHR 0x22]
       @ '','' @ [CHR 0x22] @ ''typ'' @ [CHR 0x22] @ '':'' @ [CHR 0x22] @ ''JWT'' @ [CHR 0x22]
       @ ''}''"

definition createToken :: "runtime \<Rightarrow> JWTTokenService \<Rightarrow> TokenPayload \<Rightarrow> string" where
  "createToken rt svc payload =
     (let encodedHeader = base64UrlEncode rt headerJson;
          encodedPayload = base64UrlEncode rt (JSON_stringify rt payload);
          signature = createSignature rt svc (encodedHeader @ ''.'' @ encodedPayload)
      in encodedHeader @ ''.'' @ encodedPayload @ ''.'' @ signature)"

text \<open>
  \<open>decodeToken\<close>. \<open>JSON.parse\<close> is the only call of the \<open>try\<close> block that throws; what it
  returns is read as a \<open>TokenPayload\<close>, as the declared return type says.
\<close>

definition decodeToken :: "runtime \<Rightarrow> JWTTokenService \<Rightarrow> string \<Rightarrow> error + TokenPayload" where
  "decodeToken rt svc token =
     (case split CHR ''.'' token of
        [encodedHeader, encodedPayload, signature] \<Rightarrow>
          (let expectedSignature = createSignature rt svc (encodedHeader @ ''.'' @ encodedPayload)
           in if signature \<noteq> expectedSignature then Inl (Error ''Invalid token signature'')
              else (case JSON_parse rt (base64UrlDecode rt encodedPayload) of
                      None \<Rightarrow> Inl (Error ''Invalid token payload'')
                    | Some payload \<Rightarrow> Inr payload))
      | _ \<Rightarrow> Inl (Error ''Invalid token format''))"

text \<open>\<open>generateToken\<close>; \<open>now\<close> is its \<open>Date.now()\<close>.\<close>

definition generateToken :: "runtime \<Rightarrow> JWTTokenService \<Rightarrow> string \<Rightarrow> timestamp \<Rightarrow> string" where
  "generateToken rt svc uid now =
     (let expires = now + expirationHours * 60 * 60 * 1000;
          payload = \<lparr>userId = uid, issuedAt = now, expiresAt = expires\<rparr>
      in createToken rt svc payload)"

text \<open>\<open>validateToken\<close>; \<open>now\<close> is its \<open>Date.now()\<close>.\<close>

definition validateToken :: "runtime \<Rightarrow> JWTTokenService \<Rightarrow> string \<Rightarrow> timestamp \<Rightarrow> error + string" where
  "validateToken rt svc token now =
     (if token \<in> revokedTokens svc then Inl (Error ''Token has been revoked'')
      else (case decodeToken rt svc token of
              Inl e \<Rightarrow> Inl e
            | Inr payload \<Rightarrow>
                if now > expiresAt payload then Inl (Error ''Token has expired'')
                else Inr (userId payload)))"

definition revokeToken :: "JWTTokenService \<Rightarrow> string \<Rightarrow> JWTTokenService" where
  "revokeToken svc token = svc\<lparr>revokedTokens := insert token (revokedTokens svc)\<rparr>"

definition getTokenExpiration :: "timestamp \<Rightarrow> timestamp" where
  "getTokenExpiration now = now + expirationHours * 60 * 60 * 1000"

text \<open>
  The public operations of the service, as a caller can issue them in any number and
  order, with the state each leaves.
\<close>

datatype token_op =
    GenerateToken string timestamp
  | ValidateToken string timestamp
  | RevokeToken string
  | GetTokenExpiration timestamp

fun token_step :: "JWTTokenService \<Rightarrow> token_op \<Rightarrow> JWTTokenService" where
  "token_step svc (GenerateToken uid now) = svc"
| "token_step svc (ValidateToken token now) = svc"
| "token_step svc (RevokeToken token) = revokeToken svc token"
| "token_step svc (GetTokenExpiration now) = svc"

fun token_run :: "JWTTokenService \<Rightarrow> token_op list \<Rightarrow> JWTTokenService" where
  "token_run svc [] = svc"
| "token_run svc (x # xs) = token_run (token_step svc x) xs"

section \<open>Users and the in-memory repository\<close>

record Permission =
  perm_id :: string
  resource :: string
  action :: string
  perm_description :: string

record Role =
  role_id :: string
  role_name :: string
  role_description :: string
  permissions :: "Permission list"
  role_createdAt :: timestamp

record UserProfile =
  firstName :: string
  lastName :: string
  phone :: "string option"
  avatar :: "string option"
  lastLoginAt :: "timestamp option"

record User =
  user_id :: string
  email :: string
  username :: string
  hashedPassword :: string
  roles :: "Role list"
  profile :: UserProfile
  createdAt :: timestamp
  updatedAt :: timestamp
  isActive :: bool

record UserRegistrationData =
  reg_email :: string
  reg_username :: string
  reg_password :: string
  reg_firstName :: string
  reg_lastName :: string
  reg_phone :: "string option"

record UserLoginData =
  login_email :: string
  login_password :: string

record UserResponse =
  resp_id :: string
  resp_email :: string
  resp_username :: string
  resp_roles :: "Role list"
  resp_profile :: UserProfile
  resp_createdAt :: timestamp
  resp_isActive :: bool

record AuthenticationResult =
  result_user :: UserResponse
  result_token :: string
  result_expiresAt :: timestamp

text \<open>
  \<open>InMemoryUserRepository\<close>: a \<open>Map\<close> keeps its keys in insertion order, so it is an
  association list; \<open>map.set\<close> replaces the value of a key in place and appends a new
  key.
\<close>

record InMemoryUserRepository =
  users :: "(string \<times> User) list"
  nextId :: nat

fun Map_set :: "string \<Rightarrow> User \<Rightarrow> (string \<times> User) list \<Rightarrow> (string \<times> User) list" where
  "Map_set k v [] = [(k, v)]"
| "Map_set k v ((k', v') # kvs) =
     (if k' = k then (k, v) # kvs else (k', v') # Map_set k v kvs)"

definition Map_delete :: "string \<Rightarrow> (string \<times> User) list \<Rightarrow> (string \<times> User) list" where
  "Map_delete k kvs = filter (\<lambda>kv. fst kv \<noteq> k) kvs"

definition new_InMemoryUserRepository :: InMemoryUserRepository where
  "new_InMemoryUserRepository = \<lparr>users = [], nextId = 1\<rparr>"

definition generateId :: "InMemoryUserRepository \<Rightarrow> string \<times> InMemoryUserRepository" where
  "generateId repo = (toString_nat (nextId repo), repo\<lparr>nextId := nextId repo + 1\<rparr>)"

definition findById :: "InMemoryUserRepository \<Rightarrow> string \<Rightarrow> User option" where
  "findById repo uid = map_of (users repo) uid"

definition findByEmail :: "InMemoryUserRepository \<Rightarrow> string \<Rightarrow> User option" where
  "findByEmail repo e = find (\<lambda>u. email u = e) (map snd (users repo))"

definition findByUsername :: "InMemoryUserRepository \<Rightarrow> string \<Rightarrow> User option" where
  "findByUsername repo n = find (\<lambda>u. username u = n) (map snd (users repo))"

text \<open>\<open>create\<close>; \<open>now\<close> is its \<open>new Date()\<close>.\<close>

definition create ::
  "InMemoryUserRepository \<Rightarrow> UserRegistrationData \<Rightarrow> string \<Rightarrow> timestamp
     \<Rightarrow> User \<times> InMemoryUserRepository" where
  "create repo userData hashed now =
     (let (uid, repo1) = generateId repo;
          user = \<lparr>user_id = uid, email = reg_email userData, username = reg_username userData,
                  hashedPassword = hashed, roles = [],
                  profile = \<lparr>firstName = reg_firstName userData, lastName = reg_lastName userData,
                             phone = reg_phone userData, avatar = None, lastLoginAt = None\<rparr>,
                  createdAt = now, updatedAt = now, isActive = True\<rparr>
      in (user, repo1\<lparr>users := Map_set uid user (users repo1)\<rparr>))"

text \<open>\<open>updateLastLogin\<close>; \<open>loginNow\<close> and \<open>updatedNow\<close> are its two \<open>new Date()\<close>.\<close>

definition updateLastLogin ::
  "InMemoryUserRepository \<Rightarrow> string \<Rightarrow> timestamp \<Rightarrow> timestamp \<Rightarrow> error + InMemoryUserRepository" where
  "updateLastLogin repo uid loginNow updatedNow =
     (case map_of (users repo) uid of
        None \<Rightarrow> Inl (Error ''User not found'')
      | Some user \<Rightarrow>
          (let updatedUser = user\<lparr>profile := (profile user)\<lparr>lastLoginAt := Some loginNow\<rparr>,
                                  updatedAt := updatedNow\<rparr>
           in Inr (repo\<lparr>users := Map_set uid updatedUser (users repo)\<rparr>)))"

definition setActive ::
  "InMemoryUserRepository \<Rightarrow> string \<Rightarrow> bool \<Rightarrow> timestamp \<Rightarrow> error + InMemoryUserRepository" where
  "setActive repo uid active now =
     (case map_of (users repo) uid of
        None \<Rightarrow> Inl (Error ''User not found'')
      | Some user \<Rightarrow>
          (let updatedUser = user\<lparr>isActive := active, updatedAt := now\<rparr>
           in Inr (repo\<lparr>users := Map_set uid updatedUser (users repo)\<rparr>)))"

definition delete_user :: "InMemoryUserRepository \<Rightarrow> string \<Rightarrow> InMemoryUserRepository" where
  "delete_user repo uid = repo\<lparr>users := Map_delete uid (users repo)\<rparr>"

section \<open>Authentication service\<close>

text \<open>
  The state the service reaches through its collaborators. The password service has
  none. Every operation returns what it returns or throws, and the state it leaves.
\<close>

record Services =
  userRepository :: InMemoryUserRepository
  tokenService :: JWTTokenService

definition toUserResponse :: "User \<Rightarrow> UserResponse" where
  "toUserResponse user =
     \<lparr>resp_id = user_id user, resp_email = email user, resp_username = username user,
      resp_roles = roles user, resp_profile = profile user, resp_createdAt = createdAt user,
      resp_isActive = isActive user\<rparr>"

text \<open>\<open>parts.join(sep)\<close>.\<close>

fun join :: "string \<Rightarrow> string list \<Rightarrow> string" where
  "join sep [] = []"
| "join sep [p] = p"
| "join sep (p # q # ps) = p @ sep @ join sep (q # ps)"

text \<open>
  \<open>register\<close>: \<open>salt16\<close> is the \<open>randomBytes(16)\<close> of \<open>hashPassword\<close>, \<open>createdNow\<close> the
  clock read of \<open>create\<close>, \<open>issueNow\<close> that of \<open>generateToken\<close> and \<open>reportNow\<close> that of
  \<open>getTokenExpiration\<close>.
\<close>

definition register ::
  "runtime \<Rightarrow> Services \<Rightarrow> UserRegistrationData \<Rightarrow> byte list \<Rightarrow> timestamp \<Rightarrow> timestamp \<Rightarrow> timestamp
     \<Rightarrow> (error + AuthenticationResult) \<times> Services" where
  "register rt w userData salt16 createdNow issueNow reportNow =
     (let passwordValidation = validatePasswordStrength (reg_password userData)
      in if \<not> isValid passwordValidation
         then (Inl (Error (''Password validation failed: ''
                             @ join '', '' (errors passwordValidation))), w)
         else (case findByEmail (userRepository w) (reg_email userData) of
                 Some existingUserByEmail \<Rightarrow>
                   (Inl (UserAlreadyExistsError ''email'' (reg_email userData)), w)
               | None \<Rightarrow>
                   (case findByUsername (userRepository w) (reg_username userData) of
                      Some existingUserByUsername \<Rightarrow>
                        (Inl (UserAlreadyExistsError ''username'' (reg_username userData)), w)
                    | None \<Rightarrow>
                        (case hashPassword rt salt16 (reg_password userData) of
                           Inl e \<Rightarrow> (Inl e, w)
                         | Inr hashed \<Rightarrow>
                             (let (user, repo') = create (userRepository w) userData hashed createdNow;
                                  token = generateToken rt (tokenService w) (user_id user) issueNow;
                                  expires = getTokenExpiration reportNow
                              in (Inr \<lparr>result_user = toUserResponse user, result_token = token,
                                       result_expiresAt = expires\<rparr>,
                                  w\<lparr>userRepository := repo'\<rparr>))))))"

text \<open>
  \<open>login\<close>: \<open>loginNow\<close> and \<open>updatedNow\<close> are the clock reads of \<open>updateLastLogin\<close>,
  \<open>issueNow\<close> that of \<open>generateToken\<close> and \<open>reportNow\<close> that of \<open>getTokenExpiration\<close>.
  The result carries the user as found before the update.
\<close>

definition login ::
  "runtime \<Rightarrow> Services \<Rightarrow> UserLoginData \<Rightarrow> timestamp \<Rightarrow> timestamp \<Rightarrow> timestamp \<Rightarrow> timestamp
     \<Rightarrow> (error + AuthenticationResult) \<times> Services" where
  "login rt w loginData loginNow updatedNow issueNow reportNow =
     (case findByEmail (userRepository w) (login_email loginData) of
        None \<Rightarrow> (Inl InvalidCredentialsError, w)
      | Some user \<Rightarrow>
          if \<not> verifyPassword rt (login_password loginData) (hashedPassword user)
          then (Inl InvalidCredentialsError, w)
          else if \<not> isActive user then (Inl (Error ''User account is deactivated''), w)
          else (case updateLastLogin (userRepository w) (user_id user) loginNow updatedNow of
                  Inl e \<Rightarrow> (Inl e, w)
                | Inr repo' \<Rightarrow>
                    (let token = generateToken rt (tokenService w) (user_id user) issueNow;
                         expires = getTokenExpiration reportNow
                     in (Inr \<lparr>result_user = toUserResponse user, result_token = token,
                              result_expiresAt = expires\<rparr>,
                         w\<lparr>userRepository := repo'\<rparr>))))"

text \<open>\<open>AuthService.validateToken\<close>; \<open>now\<close> is the clock read of the token service.\<close>

definition validateToken_auth ::
  "runtime \<Rightarrow> Services \<Rightarrow> string \<Rightarrow> timestamp \<Rightarrow> (error + UserResponse) \<times> Services" where
  "validateToken_auth rt w token now =
     (case validateToken rt (tokenService w) token now of
        Inl e \<Rightarrow> (Inl e, w)
      | Inr uid \<Rightarrow>
          (case findById (userRepository w) uid of
             None \<Rightarrow> (Inl (UserNotFoundError uid), w)
           | Some user \<Rightarrow>
               if \<not> isActive user then (Inl (Error ''User account is deactivated''), w)
               else (Inr (toUserResponse user), w)))"

text \<open>
  \<open>refreshToken\<close>: \<open>now\<close> is the clock read of \<open>validateToken\<close>, \<open>issueNow\<close> that of
  \<open>generateToken\<close> and \<open>reportNow\<close> that of \<open>getTokenExpiration\<close>.
\<close>

definition refreshToken ::
  "runtime \<Rightarrow> Services \<Rightarrow> string \<Rightarrow> timestamp \<Rightarrow> timestamp \<Rightarrow> timestamp
     \<Rightarrow> (error + AuthenticationResult) \<times> Services" where
  "refreshToken rt w token now issueNow reportNow =
     (case validateToken rt (tokenService w) token now of
        Inl e \<Rightarrow> (Inl e, w)
      | Inr uid \<Rightarrow>
          (case findById (userRepository w) uid of
             None \<Rightarrow> (Inl (UserNotFoundError uid), w)
           | Some user \<Rightarrow>
               if \<not> isActive user then (Inl (Error ''User account is deactivated''), w)
               else
                 (let newToken = generateToken rt (tokenService w) (user_id user) issueNow;
                      expires = getTokenExpiration reportNow
                  in (Inr \<lparr>result_user = toUserResponse user, result_token = newToken,
                           result_expiresAt = expires\<rparr>, w))))"

definition logout :: "Services \<Rightarrow> string \<Rightarrow> Services" where
  "logout w token = w\<lparr>tokenService := revokeToken (tokenService w) token\<rparr>"

section \<open>Authentication middleware\<close>

text \<open>
  Of a request, the middleware reads the \<open>authorization\<close> header. It either answers
  with a status and an error message, or sets \<open>req.user\<close> and calls \<open>next()\<close>.
\<close>

datatype outcome = Respond nat string | Next UserResponse

definition extractToken :: "string option \<Rightarrow> string option" where
  "extractToken authorization =
     (case authorization of
        None \<Rightarrow> None
      | Some authHeader \<Rightarrow>
          if authHeader = [] then None
          else (case split CHR '' '' authHeader of
                  [scheme, credentials] \<Rightarrow> if scheme \<noteq> ''Bearer'' then None else Some credentials
                | _ \<Rightarrow> None))"

text \<open>
  \<open>authenticate\<close>; \<open>now\<close> is the clock read of the token service. The \<open>catch\<close> answers 401
  with the message of what was thrown.
\<close>

definition authenticate :: "runtime \<Rightarrow> Services \<Rightarrow> string option \<Rightarrow> timestamp \<Rightarrow> outcome" where
  "authenticate rt w authorization now =
     (case extractToken authorization of
        None \<Rightarrow> Respond 401 ''Authentication token required''
      | Some token \<Rightarrow>
          if token = [] then Respond 401 ''Authentication token required''
          else (case validateToken rt (tokenService w) token now of
                  Inl e \<Rightarrow> Respond 401 (message e)
                | Inr uid \<Rightarrow>
                    (case findById (userRepository w) uid of
                       None \<Rightarrow> Respond 401 ''Invalid authentication token''
                     | Some user \<Rightarrow>
                         if \<not> isActive user then Respond 403 ''User account is deactivated''
                         else Next (toUserResponse user))))"

section \<open>User controller\<close>

text \<open>
  The \<open>login\<close> handler and \<open>handleError\<close>. Of the request body the handler reads
  \<open>email\<close> and \<open>password\<close>, each absent or a string; it answers with a status and
  either the data or an error message. Every error of the model is an instance of
  \<open>Error\<close>, so the last branch of \<open>handleError\<close> (status 500) is not reached.
\<close>

record LoginBody =
  body_email :: "string option"
  body_password :: "string option"

datatype response = Success nat AuthenticationResult | Failure nat string

definition validateLoginData :: "LoginBody \<Rightarrow> error + UserLoginData" where
  "validateLoginData body =
     (case body_email body of
        None \<Rightarrow> Inl (Error ''Valid email is required'')
      | Some e \<Rightarrow>
          if e = [] then Inl (Error ''Valid email is required'')
          else (case body_password body of
                  None \<Rightarrow> Inl (Error ''Valid password is required'')
                | Some p \<Rightarrow>
                    if p = [] then Inl (Error ''Valid password is required'')
                    else Inr \<lparr>login_email = e, login_password = p\<rparr>))"

fun handleError :: "error \<Rightarrow> response" where
  "handleError (UserAlreadyExistsError field v) = Failure 409 (message (UserAlreadyExistsError field v))"
| "handleError InvalidCredentialsError = Failure 401 (message InvalidCredentialsError)"
| "handleError (UserNotFoundError identifier) = Failure 404 (message (UserNotFoundError identifier))"
| "handleError e = Failure 400 (message e)"

definition login_handler ::
  "runtime \<Rightarrow> Services \<Rightarrow> LoginBody \<Rightarrow> timestamp \<Rightarrow> timestamp \<Rightarrow> timestamp \<Rightarrow> timestamp
     \<Rightarrow> response \<times> Services" where
  "login_handler rt w body loginNow updatedNow issueNow reportNow =
     (case validateLoginData body of
        Inl e \<Rightarrow> (handleError e, w)
      | Inr loginData \<Rightarrow>
          (case login rt w loginData loginNow updatedNow issueNow reportNow of
             (Inl e, w') \<Rightarrow> (handleError e, w')
           | (Inr result, w') \<Rightarrow> (Success 200 result, w')))"

section \<open>Sequences of operations\<close>

text \<open>
  The operations of the authentication service, as callers can issue them in any number
  and order, each with the results of its clock reads and random draws, and the state
  each leaves.
\<close>

datatype auth_op =
    Register UserRegistrationData "byte list" timestamp timestamp timestamp
  | Login UserLoginData timestamp timestamp timestamp timestamp
  | ValidateTokenAuth string timestamp
  | RefreshToken string timestamp timestamp timestamp
  | Logout string

fun auth_step :: "runtime \<Rightarrow> Services \<Rightarrow> auth_op \<Rightarrow> Services" where
  "auth_step rt w (Register userData salt16 createdNow issueNow reportNow) =
     snd (register rt w userData salt16 createdNow issueNow reportNow)"
| "auth_step rt w (Login loginData loginNow updatedNow issueNow reportNow) =
     snd (login rt w loginData loginNow updatedNow issueNow reportNow)"
| "auth_step rt w (ValidateTokenAuth token now) = snd (validateToken_auth rt w token now)"
| "auth_step rt w (RefreshToken token now issueNow reportNow) =
     snd (refreshToken rt w token now issueNow reportNow)"
| "auth_step rt w (Logout token) = logout w token"

fun auth_run :: "runtime \<Rightarrow> Services \<Rightarrow> auth_op list \<Rightarrow> Services" where
  "auth_run rt w [] = w"
| "auth_run rt w (x # xs) = auth_run rt (auth_step rt w x) xs"

section \<open>Assumptions on the runtime\<close>

text \<open>
  The codecs of the runtime give a payload back: \<open>JSON.parse\<close> of the decoded encoding
  of \<open>JSON.stringify(payload)\<close> is the payload.
\<close>

definition payloadRoundTrips :: "runtime \<Rightarrow> TokenPayload \<Rightarrow> bool" where
  "payloadRoundTrips rt payload =
     (JSON_parse rt (base64UrlDecode rt (base64UrlEncode rt (JSON_stringify rt payload))) = Some payload)"

section \<open>A runtime to run the model on\<close>

text \<open>
  An executable stand-in for the runtime, for running the model on concrete inputs.
  Its codecs are the real ones on the inputs used here: UTF-8 of ASCII strings,
  base64url decoding of well-formed input, and \<open>JSON\<close> of a payload whose user id needs
  no escaping. Its two digests are checksums, not SHA-256 and HMAC.
\<close>

fun indexFrom :: "nat \<Rightarrow> char \<Rightarrow> string \<Rightarrow> nat option" where
  "indexFrom n c [] = None"
| "indexFrom n c (x # xs) = (if c = x then Some n else indexFrom (n + 1) c xs)"

definition base64urlValue :: "char \<Rightarrow> nat option" where
  "base64urlValue c = indexFrom 0 c base64urlAlphabet"

fun sample_from_base64url :: "string \<Rightarrow> byte list" where
  "sample_from_base64url (a # b # c # d # rest) =
     (case (base64urlValue a, base64urlValue b, base64urlValue c, base64urlValue d) of
        (Some k, Some l, Some m, Some n) \<Rightarrow>
          [word_of_nat (k * 4 + l div 16), word_of_nat (l mod 16 * 16 + m div 4),
           word_of_nat (m mod 4 * 64 + n)] @ sample_from_base64url rest
      | _ \<Rightarrow> [])"
| "sample_from_base64url [a, b, c] =
     (case (base64urlValue a, base64urlValue b, base64urlValue c) of
        (Some k, Some l, Some m) \<Rightarrow>
          [word_of_nat (k * 4 + l div 16), word_of_nat (l mod 16 * 16 + m div 4)]
      | _ \<Rightarrow> [])"
| "sample_from_base64url [a, b] =
     (case (base64urlValue a, base64urlValue b) of
        (Some k, Some l) \<Rightarrow> [word_of_nat (k * 4 + l div 16)]
      | _ \<Rightarrow> [])"
| "sample_from_base64url _ = []"

definition sample_checksum :: "string \<Rightarrow> byte" where
  "sample_checksum s = foldr (\<lambda>c acc. of_char c + acc) s 0"

fun stripPrefix :: "string \<Rightarrow> string \<Rightarrow> string option" where
  "stripPrefix [] s = Some s"
| "stripPrefix (p # ps) [] = None"
| "stripPrefix (p # ps) (c # cs) = (if p = c then stripPrefix ps cs else None)"

definition toString_int :: "int \<Rightarrow> string" where
  "toString_int i = (if i < 0 then ''-'' @ toString_nat (nat (- i)) else toString_nat (nat i))"

definition dq :: string where
  "dq = [CHR 0x22]"

definition sample_stringify :: "TokenPayload \<Rightarrow> string" where
  "sample_stringify p =
     ''{'' @ dq @ ''userId'' @ dq @ '':'' @ dq @ userId p @ dq
       @ '','' @ dq @ ''issuedAt'' @ dq @ '':'' @ toString_int (issuedAt p)
       @ '','' @ dq @ ''expiresAt'' @ dq @ '':'' @ toString_int (expiresAt p) @ ''}''"

fun digitsValue :: "nat \<Rightarrow> string \<Rightarrow> nat option" where
  "digitsValue acc [] = Some acc"
| "digitsValue acc (c # cs) =
     (case indexFrom 0 c ''0123456789'' of
        None \<Rightarrow> None
      | Some d \<Rightarrow> digitsValue (10 * acc + d) cs)"

definition parseInt :: "string \<Rightarrow> int option" where
  "parseInt s =
     (case s of
        [] \<Rightarrow> None
      | c # cs \<Rightarrow>
          if c = CHR ''-'' then (if cs = [] then None else map_option (\<lambda>n. - int n) (digitsValue 0 cs))
          else map_option int (digitsValue 0 s))"

definition sample_parse :: "string \<Rightarrow> TokenPayload option" where
  "sample_parse s =
     (case stripPrefix (''{'' @ dq @ ''userId'' @ dq @ '':'' @ dq) s of
        None \<Rightarrow> None
      | Some s1 \<Rightarrow>
          (case stripPrefix (dq @ '','' @ dq @ ''issuedAt'' @ dq @ '':'')
                  (dropWhile (\<lambda>c. c \<noteq> CHR 0x22) s1) of
             None \<Rightarrow> None
           | Some s2 \<Rightarrow>
               (case stripPrefix ('','' @ dq @ ''expiresAt'' @ dq @ '':'')
                       (dropWhile (\<lambda>c. c \<noteq> CHR '','') s2) of
                  None \<Rightarrow> None
                | Some s3 \<Rightarrow>
                    if dropWhile (\<lambda>c. c \<noteq> CHR ''}'') s3 \<noteq> ''}'' then None
                    else (case (parseInt (takeWhile (\<lambda>c. c \<noteq> CHR '','') s2),
                                parseInt (takeWhile (\<lambda>c. c \<noteq> CHR ''}'') s3)) of
                            (Some i, Some e) \<Rightarrow>
                              Some \<lparr>userId = takeWhile (\<lambda>c. c \<noteq> CHR 0x22) s1,
                                    issuedAt = i, expiresAt = e\<rparr>
                          | _ \<Rightarrow> None))))"

definition sample_runtime :: runtime where
  "sample_runtime =
     \<lparr>sha256 = (\<lambda>s. replicate 30 0 @ [sample_checksum s, word_of_nat (length s)]),
      hmacSha256 = (\<lambda>key data. [sample_checksum key, sample_checksum data, word_of_nat (length data)]),
      Buffer_from_utf8 = map of_char,
      toString_utf8 = map (\<lambda>b. char_of (unat b)),
      Buffer_from_base64url = sample_from_base64url,
      JSON_stringify = sample_stringify,
      JSON_parse = sample_parse\<rparr>"

text \<open>
  The token service of the tests, and the tokens it issues to user \<open>1\<close> at times 1000
  and 5000.
\<close>

definition sample_service :: JWTTokenService where
  "sample_service = new_JWTTokenService (Some ''test-secret'') []"

definition sample_payload :: TokenPayload where
  "sample_payload = \<lparr>userId = ''1'', issuedAt = 1000, expiresAt = 86401000\<rparr>"

definition sample_header_segment :: string where
  "sample_header_segment = ''eyJhbGciOiJIUzI1NiIsInR5cCI6IkpXVCJ9''"

definition sample_payload_segment :: string where
  "sample_payload_segment = ''eyJ1c2VySWQiOiIxIiwiaXNzdWVkQXQiOjEwMDAsImV4cGlyZXNBdCI6ODY0MDEwMDB9''"

definition sample_token :: string where
  "sample_token = sample_header_segment @ ''.'' @ sample_payload_segment @ ''.'' @ ''cydp''"

definition later_payload :: TokenPayload where
  "later_payload = \<lparr>userId = ''1'', issuedAt = 5000, expiresAt = 86405000\<rparr>"

definition later_payload_segment :: string where
  "later_payload_segment = ''eyJ1c2VySWQiOiIxIiwiaXNzdWVkQXQiOjUwMDAsImV4cGlyZXNBdCI6ODY0MDUwMDB9''"

definition later_token :: string where
  "later_token = sample_header_segment @ ''.'' @ later_payload_segment @ ''.'' @ ''c0dp''"

text \<open>
  The registration of the tests, with a password that passes the policy, and the
  state after it: the repository holds the user under the id \<open>1\<close>.
\<close>

definition sample_password :: string where
  "sample_password = ''Ab1!cdef''"

definition wrong_password :: string where
  "wrong_password = ''Xb1!cdef''"

definition sample_registration :: UserRegistrationData where
  "sample_registration =
     \<lparr>reg_email = ''test@example.com'', reg_username = ''testuser'', reg_password = sample_password,
      reg_firstName = ''John'', reg_lastName = ''Doe'', reg_phone = Some ''+1234567890''\<rparr>"

definition sample_salt :: "byte list" where
  "sample_salt = [0, 1, 2, 3, 4, 5, 6, 7, 8, 9, 10, 11, 12, 13, 14, 15]"

definition sample_salt_hex :: string where
  "sample_salt_hex = ''000102030405060708090a0b0c0d0e0f''"

definition sample_digest :: "byte list" where
  "sample_digest = replicate 30 0 @ [0xE9, 0x28]"

definition sample_hashed :: string where
  "sample_hashed = sample_salt_hex @ '':'' @ toString_hex sample_digest"

definition sample_user :: User where
  "sample_user =
     \<lparr>user_id = ''1'', email = ''test@example.com'', username = ''testuser'',
      hashedPassword = sample_hashed, roles = [],
      profile = \<lparr>firstName = ''John'', lastName = ''Doe'', phone = Some ''+1234567890'',
                 avatar = None, lastLoginAt = None\<rparr>,
      createdAt = 900, updatedAt = 900, isActive = True\<rparr>"

definition empty_world :: Services where
  "empty_world = \<lparr>userRepository = new_InMemoryUserRepository, tokenService = sample_service\<rparr>"

definition sample_world :: Services where
  "sample_world =
     \<lparr>userRepository = \<lparr>users = [(''1'', sample_user)], nextId = 2\<rparr>,
      tokenService = sample_service\<rparr>"

definition logged_in_world :: Services where
  "logged_in_world =
     \<lparr>userRepository =
        \<lparr>users = [(''1'', sample_user\<lparr>profile := (profile sample_user)\<lparr>lastLoginAt := Some 4000\<rparr>,
                                    updatedAt := 4001\<rparr>)],
         nextId = 2\<rparr>,
      tokenService = sample_service\<rparr>"

definition deactivated_world :: Services where
  "deactivated_world =
     \<lparr>userRepository =
        \<lparr>users = [(''1'', sample_user\<lparr>isActive := False, updatedAt := 3000\<rparr>)], nextId = 2\<rparr>,
      tokenService = sample_service\<rparr>"

definition deleted_world :: Services where
  "deleted_world = \<lparr>userRepository = \<lparr>users = [], nextId = 2\<rparr>, tokenService = sample_service\<rparr>"

text \<open>A password of eight characters, three of them line feeds in a row.\<close>

definition line_feed_password :: string where
  "line_feed_password = ''Ab1!'' @ [CHR 0x0A, CHR 0x0A, CHR 0x0A] @ ''x''"




section \<open>What a comparison reads\<close>


definition timingSafeEqual_reads :: "byte list \<Rightarrow> byte list \<Rightarrow> nat" where
  "timingSafeEqual_reads a b = (if length a \<noteq> length b then 0 else length a)"


definition digestComparison_reads :: "runtime \<Rightarrow> string \<Rightarrow> string \<Rightarrow> nat" where
  "digestComparison_reads rt password stored =
     (case split CHR '':'' stored of
        salt # hash # _ \<Rightarrow>
          if salt = [] \<or> hash = [] then 0
          else
            (let newHash = toString_hex (sha256 rt (password @ salt))
             in timingSafeEqual_reads (Buffer_from_hex hash) (Buffer_from_hex newHash))
      | _ \<Rightarrow> 0)"

section \<open>The policy in the words of its messages\<close>

text \<open>
  ``More than 2 consecutive identical characters'': three equal code units in a row,
  whatever the code unit.
\<close>

fun containsTripleRun :: "string \<Rightarrow> bool" where
  "containsTripleRun (a # b # c # rest) = ((b = a \<and> c = a) \<or> containsTripleRun (b # c # rest))"
| "containsTripleRun _ = False"

section \<open>Splitting and the token format\<close>


lemma split_no_sep: "sep \<notin> set s \<Longrightarrow> split sep s = [s]"
  by (induction s) auto

lemma split_append_sep: "sep \<notin> set a \<Longrightarrow> split sep (a @ sep # rest) = a # split sep rest"
  by (induction a) auto

lemma split_three:
  "sep \<notin> set a \<Longrightarrow> sep \<notin> set b \<Longrightarrow> sep \<notin> set c
     \<Longrightarrow> split sep (a @ sep # b @ sep # c) = [a, b, c]"
  by (simp add: split_append_sep split_no_sep)



lemma base64urlChar_in_alphabet: "base64urlChar n \<in> set base64urlAlphabet"
proof -
  have "length base64urlAlphabet = 64" by (simp add: base64urlAlphabet_def)
  then have "base64urlAlphabet ! (n mod 64) \<in> set base64urlAlphabet" by (intro nth_mem) simp
  then show ?thesis by (simp add: base64urlChar_def)
qed

lemma base64urlChar_not_dot: "base64urlChar n \<noteq> CHR ''.''"
proof
  assume "base64urlChar n = CHR ''.''"
  with base64urlChar_in_alphabet[of n] have "CHR ''.'' \<in> set base64urlAlphabet" by simp
  then show False by (simp add: base64urlAlphabet_def)
qed

lemma toString_base64url_no_dot: "CHR ''.'' \<notin> set (toString_base64url bs)"
  by (induction bs rule: toString_base64url.induct) (simp_all add: base64urlChar_not_dot[symmetric])

lemma split_createToken:
  "split CHR ''.'' (createToken rt svc payload) =
     [base64UrlEncode rt headerJson, base64UrlEncode rt (JSON_stringify rt payload),
      createSignature rt svc (base64UrlEncode rt headerJson @ ''.'' @ base64UrlEncode rt (JSON_stringify rt payload))]"
  unfolding createToken_def Let_def
  using split_three[of "CHR ''.''" "base64UrlEncode rt headerJson" "base64UrlEncode rt (JSON_stringify rt payload)"
      "createSignature rt svc (base64UrlEncode rt headerJson @ ''.'' @ base64UrlEncode rt (JSON_stringify rt payload))"]
  by (simp add: base64UrlEncode_def createSignature_def toString_base64url_no_dot)

lemma decodeToken_createToken:
  "payloadRoundTrips rt payload \<Longrightarrow> decodeToken rt svc (createToken rt svc payload) = Inr payload"
  by (simp add: decodeToken_def split_createToken payloadRoundTrips_def)

lemma generateToken_createToken:
  "generateToken rt svc uid t0 = createToken rt svc \<lparr>userId = uid, issuedAt = t0, expiresAt = t0 + 86400000\<rparr>"
  by (simp add: generateToken_def expirationHours_def)

lemma revoked_token_step: "token \<in> revokedTokens svc \<Longrightarrow> token \<in> revokedTokens (token_step svc x)"
  by (cases x) (simp_all add: revokeToken_def)

lemma revoked_token_run: "token \<in> revokedTokens svc \<Longrightarrow> token \<in> revokedTokens (token_run svc ops)"
  by (induction ops arbitrary: svc) (simp_all add: revoked_token_step)

section \<open>Validation, step by step\<close>









section \<open>What a successful operation did\<close>

lemma refreshToken_Inr:
  assumes "refreshToken rt w token now issueNow reportNow = (Inr r, w')"
  shows "\<exists>uid user. validateToken rt (tokenService w) token now = Inr uid
           \<and> findById (userRepository w) uid = Some user \<and> isActive user
           \<and> result_user r = toUserResponse user
           \<and> result_token r = generateToken rt (tokenService w) (user_id user) issueNow
           \<and> result_expiresAt r = getTokenExpiration reportNow
           \<and> w' = w"
proof (cases "validateToken rt (tokenService w) token now")
  case (Inl e)
  with assms show ?thesis by (simp add: refreshToken_def)
next
  case (Inr uid)
  show ?thesis
  proof (cases "findById (userRepository w) uid")
    case None
    with assms Inr show ?thesis by (simp add: refreshToken_def)
  next
    case (Some user)
    show ?thesis
    proof (cases "isActive user")
      case False
      with assms Inr Some show ?thesis by (simp add: refreshToken_def)
    next
      case True
      with assms Inr Some have "r = \<lparr>result_user = toUserResponse user,
                  result_token = generateToken rt (tokenService w) (user_id user) issueNow,
                  result_expiresAt = getTokenExpiration reportNow\<rparr>" "w' = w"
        by (auto simp add: refreshToken_def Let_def)
      with Inr Some True show ?thesis by simp
    qed
  qed
qed

lemma login_Inr:
  assumes "login rt w loginData loginNow updatedNow issueNow reportNow = (Inr r, w')"
  shows "\<exists>user repo'. findByEmail (userRepository w) (login_email loginData) = Some user
           \<and> verifyPassword rt (login_password loginData) (hashedPassword user) \<and> isActive user
           \<and> updateLastLogin (userRepository w) (user_id user) loginNow updatedNow = Inr repo'
           \<and> result_user r = toUserResponse user
           \<and> result_token r = generateToken rt (tokenService w) (user_id user) issueNow
           \<and> result_expiresAt r = getTokenExpiration reportNow
           \<and> w' = w\<lparr>userRepository := repo'\<rparr>"
proof (cases "findByEmail (userRepository w) (login_email loginData)")
  case None
  with assms show ?thesis by (simp add: login_def)
next
  case (Some user)
  show ?thesis
  proof (cases "verifyPassword rt (login_password loginData) (hashedPassword user) \<and> isActive user")
    case False
    with assms Some show ?thesis by (auto simp add: login_def split: if_splits)
  next
    case True
    show ?thesis
    proof (cases "updateLastLogin (userRepository w) (user_id user) loginNow updatedNow")
      case (Inl e)
      with assms Some True show ?thesis by (simp add: login_def)
    next
      case (Inr repo')
      with assms Some True have "r = \<lparr>result_user = toUserResponse user,
                  result_token = generateToken rt (tokenService w) (user_id user) issueNow,
                  result_expiresAt = getTokenExpiration reportNow\<rparr>" "w' = w\<lparr>userRepository := repo'\<rparr>"
        by (auto simp add: login_def Let_def)
      with Inr Some True show ?thesis by simp
    qed
  qed
qed

lemma register_Inr:
  assumes "register rt w userData salt16 createdNow issueNow reportNow = (Inr r, w')"
  shows "\<exists>hashed user repo'. isValid (validatePasswordStrength (reg_password userData))
           \<and> findByEmail (userRepository w) (reg_email userData) = None
           \<and> findByUsername (userRepository w) (reg_username userData) = None
           \<and> hashPassword rt salt16 (reg_password userData) = Inr hashed
           \<and> create (userRepository w) userData hashed createdNow = (user, repo')
           \<and> result_user r = toUserResponse user
           \<and> result_token r = generateToken rt (tokenService w) (user_id user) issueNow
           \<and> result_expiresAt r = getTokenExpiration reportNow
           \<and> w' = w\<lparr>userRepository := repo'\<rparr>"
proof (cases "isValid (validatePasswordStrength (reg_password userData))")
  case False
  with assms show ?thesis by (simp add: register_def Let_def)
next
  case True
  note v = this
  show ?thesis
  proof (cases "findByEmail (userRepository w) (reg_email userData)")
    case (Some u)
    with assms v show ?thesis by (simp add: register_def Let_def)
  next
    case None
    note e = this
    show ?thesis
    proof (cases "findByUsername (userRepository w) (reg_username userData)")
      case (Some u)
      with assms v e show ?thesis by (simp add: register_def Let_def)
    next
      case None
      note n = this
      show ?thesis
      proof (cases "hashPassword rt salt16 (reg_password userData)")
        case (Inl err)
        with assms v e n show ?thesis by (simp add: register_def Let_def)
      next
        case (Inr hashed)
        obtain user repo' where c: "create (userRepository w) userData hashed createdNow = (user, repo')"
          by (cases "create (userRepository w) userData hashed createdNow")
        with assms v e n Inr have "r = \<lparr>result_user = toUserResponse user,
                  result_token = generateToken rt (tokenService w) (user_id user) issueNow,
                  result_expiresAt = getTokenExpiration reportNow\<rparr>" "w' = w\<lparr>userRepository := repo'\<rparr>"
          by (auto simp add: register_def Let_def)
        with v e n Inr c show ?thesis by simp
      qed
    qed
  qed
qed

lemma register_tokenService:
  "tokenService (snd (register rt w userData salt16 createdNow issueNow reportNow)) = tokenService w"
proof (cases "register rt w userData salt16 createdNow issueNow reportNow")
  case (Pair res w')
  show ?thesis
  proof (cases res)
    case (Inr r)
    with Pair register_Inr [of rt w userData salt16 createdNow issueNow reportNow r w']
    show ?thesis by auto
  next
    case (Inl e)
    with Pair have "w' = w"
      by (simp add: register_def Let_def split: if_splits option.splits sum.splits prod.splits)
    with Pair show ?thesis by simp
  qed
qed

lemma login_tokenService:
  "tokenService (snd (login rt w loginData loginNow updatedNow issueNow reportNow)) = tokenService w"
proof (cases "login rt w loginData loginNow updatedNow issueNow reportNow")
  case (Pair res w')
  show ?thesis
  proof (cases res)
    case (Inr r)
    with Pair login_Inr [of rt w loginData loginNow updatedNow issueNow reportNow r w']
    show ?thesis by auto
  next
    case (Inl e)
    with Pair have "w' = w"
      by (simp add: login_def Let_def split: if_splits option.splits sum.splits)
    with Pair show ?thesis by simp
  qed
qed

lemma validateToken_auth_state: "snd (validateToken_auth rt w token now) = w"
  by (simp add: validateToken_auth_def split: sum.splits option.splits)

lemma refreshToken_state: "snd (refreshToken rt w token now issueNow reportNow) = w"
  by (simp add: refreshToken_def Let_def split: sum.splits option.splits)

lemma revoked_auth_step:
  "token \<in> revokedTokens (tokenService w) \<Longrightarrow> token \<in> revokedTokens (tokenService (auth_step rt w x))"
  by (cases x)
    (simp_all add: register_tokenService login_tokenService validateToken_auth_state
      refreshToken_state logout_def revokeToken_def)

lemma revoked_auth_run:
  "token \<in> revokedTokens (tokenService w) \<Longrightarrow> token \<in> revokedTokens (tokenService (auth_run rt w ops))"
  by (induction ops arbitrary: w) (simp_all add: revoked_auth_step)

lemma validateToken_auth_revoked:
  "token \<in> revokedTokens (tokenService w) \<Longrightarrow>
     validateToken_auth rt w token now = (Inl (Error ''Token has been revoked''), w)"
  by (simp add: validateToken_auth_def validateToken_def)

section \<open>Hash records\<close>

lemma hexValue_hexDigit_all: "list_all (\<lambda>n. hexValue (hexDigit n) = Some n) [0..<16]"
  by code_simp

lemma hexValue_hexDigit: "n < 16 \<Longrightarrow> hexValue (hexDigit n) = Some n"
  using hexValue_hexDigit_all by (simp add: list_all_iff)

lemma hexDigit_not_colon: "hexDigit n \<noteq> CHR '':''"
proof
  assume a: "hexDigit n = CHR '':''"
  have "''0123456789abcdef'' ! (n mod 16) \<in> set ''0123456789abcdef''" by (intro nth_mem) simp
  with a have "CHR '':'' \<in> set ''0123456789abcdef''" by (simp add: hexDigit_def)
  then show False by simp
qed

lemma toString_hex_Cons:
  "toString_hex (b # bs) = hexDigit (unat b div 16) # hexDigit (unat b mod 16) # toString_hex bs"
  by (simp add: toString_hex_def)

lemma toString_hex_Nil: "toString_hex [] = []"
  by (simp add: toString_hex_def)

lemma toString_hex_no_colon: "CHR '':'' \<notin> set (toString_hex bs)"
  by (induction bs) (simp_all add: toString_hex_Cons toString_hex_Nil hexDigit_not_colon[symmetric])

lemma toString_hex_empty: "(toString_hex bs = []) = (bs = [])"
  by (cases bs) (simp_all add: toString_hex_Cons toString_hex_Nil)

lemma Buffer_from_hex_toString_hex: "Buffer_from_hex (toString_hex bs) = bs"
proof (induction bs)
  case Nil
  then show ?case by (simp add: toString_hex_Nil)
next
  case (Cons b bs)
  have "unat b < 256" using unsigned_less[of b] by simp
  then have 1: "unat b div 16 < 16" by simp
  have 2: "unat b mod 16 < 16" by simp
  show ?case using Cons hexValue_hexDigit[OF 1] hexValue_hexDigit[OF 2]
    by (simp add: toString_hex_Cons)
qed

lemma split_record:
  "split CHR '':'' (toString_hex salt16 @ '':'' @ toString_hex digest) = [toString_hex salt16, toString_hex digest]"
  using split_append_sep[of "CHR '':''" "toString_hex salt16" "toString_hex digest"]
  by (simp add: toString_hex_no_colon split_no_sep)

lemma hashPassword_Inr:
  "password \<noteq> [] \<Longrightarrow>
     hashPassword rt salt16 password
       = Inr (toString_hex salt16 @ '':'' @ toString_hex (sha256 rt (password @ toString_hex salt16)))"
  by (simp add: hashPassword_def validatePasswordInput_def Let_def)

lemma verifyPassword_record:
  "verifyPassword rt candidate (toString_hex salt16 @ '':'' @ toString_hex digest) =
     (salt16 \<noteq> [] \<and> digest \<noteq> [] \<and> sha256 rt (candidate @ toString_hex salt16) = digest)"
  unfolding verifyPassword_def split_record
  by (auto simp: Let_def toString_hex_empty Buffer_from_hex_toString_hex timingSafeEqual_def)

section \<open>The model at work\<close>

lemmas base64url_eval = base64urlChar_def base64urlAlphabet_def base64urlValue_def

lemma sample_stringify_payload:
  "JSON_stringify sample_runtime sample_payload
     = ''{'' @ dq @ ''userId'' @ dq @ '':'' @ dq @ ''1'' @ dq @ '','' @ dq @ ''issuedAt'' @ dq @ '':1000,''
         @ dq @ ''expiresAt'' @ dq @ '':86401000}''"
  by (simp add: sample_runtime_def sample_stringify_def sample_payload_def toString_int_def)

lemma sample_encode_payload:
  "base64UrlEncode sample_runtime (JSON_stringify sample_runtime sample_payload) = sample_payload_segment"
  unfolding sample_stringify_payload
  by (simp add: base64UrlEncode_def sample_runtime_def dq_def base64url_eval sample_payload_segment_def)

lemma sample_encode_header: "base64UrlEncode sample_runtime headerJson = sample_header_segment"
  by (simp add: base64UrlEncode_def sample_runtime_def headerJson_def base64url_eval sample_header_segment_def)

lemma sample_signature:
  "createSignature sample_runtime sample_service (sample_header_segment @ ''.'' @ sample_payload_segment) = ''cydp''"
  by (simp add: createSignature_def sample_runtime_def sample_service_def new_JWTTokenService_def
      sample_checksum_def base64url_eval sample_header_segment_def sample_payload_segment_def)

lemma sample_createToken: "createToken sample_runtime sample_service sample_payload = sample_token"
  unfolding createToken_def Let_def sample_encode_payload sample_encode_header sample_signature
  by (simp add: sample_token_def)

lemma sample_generateToken: "generateToken sample_runtime sample_service ''1'' 1000 = sample_token"
  unfolding generateToken_createToken using sample_createToken by (simp add: sample_payload_def)

lemma sample_decode_payload:
  "base64UrlDecode sample_runtime sample_payload_segment
     = ''{'' @ dq @ ''userId'' @ dq @ '':'' @ dq @ ''1'' @ dq @ '','' @ dq @ ''issuedAt'' @ dq @ '':1000,''
         @ dq @ ''expiresAt'' @ dq @ '':86401000}''"
  by (simp add: base64UrlDecode_def sample_runtime_def base64url_eval sample_payload_segment_def
      dq_def char_of_def bit_0)

lemma sample_parse_payload:
  "JSON_parse sample_runtime
     (''{'' @ dq @ ''userId'' @ dq @ '':'' @ dq @ ''1'' @ dq @ '','' @ dq @ ''issuedAt'' @ dq @ '':1000,''
         @ dq @ ''expiresAt'' @ dq @ '':86401000}'') = Some sample_payload"
  by (simp add: sample_runtime_def sample_parse_def dq_def parseInt_def sample_payload_def)

lemma sample_payloadRoundTrips: "payloadRoundTrips sample_runtime sample_payload"
  unfolding payloadRoundTrips_def sample_encode_payload sample_decode_payload sample_parse_payload
  by (rule refl)


lemma sample_not_revoked: "revokedTokens sample_service = {}"
  by (simp add: sample_service_def new_JWTTokenService_def)

lemma sample_decodeToken: "decodeToken sample_runtime sample_service sample_token = Inr sample_payload"
  using decodeToken_createToken[OF sample_payloadRoundTrips, of sample_service]
  by (simp add: sample_createToken)

lemma sample_validateToken:
  "validateToken sample_runtime sample_service sample_token now
     = (if now > 86401000 then Inl (Error ''Token has expired'') else Inr ''1'')"
  by (simp add: validateToken_def sample_not_revoked sample_decodeToken sample_payload_def)

lemma later_stringify_payload:
  "JSON_stringify sample_runtime later_payload
     = ''{'' @ dq @ ''userId'' @ dq @ '':'' @ dq @ ''1'' @ dq @ '','' @ dq @ ''issuedAt'' @ dq @ '':5000,''
         @ dq @ ''expiresAt'' @ dq @ '':86405000}''"
  by (simp add: sample_runtime_def sample_stringify_def later_payload_def toString_int_def)

lemma later_encode_payload:
  "base64UrlEncode sample_runtime (JSON_stringify sample_runtime later_payload) = later_payload_segment"
  unfolding later_stringify_payload
  by (simp add: base64UrlEncode_def sample_runtime_def dq_def base64url_eval later_payload_segment_def)

lemma later_signature:
  "createSignature sample_runtime sample_service (sample_header_segment @ ''.'' @ later_payload_segment) = ''c0dp''"
  by (simp add: createSignature_def sample_runtime_def sample_service_def new_JWTTokenService_def
      sample_checksum_def base64url_eval sample_header_segment_def later_payload_segment_def)

lemma later_createToken: "createToken sample_runtime sample_service later_payload = later_token"
  unfolding createToken_def Let_def later_encode_payload sample_encode_header later_signature
  by (simp add: later_token_def)

lemma later_generateToken: "generateToken sample_runtime sample_service ''1'' 5000 = later_token"
  unfolding generateToken_createToken using later_createToken by (simp add: later_payload_def)

lemma later_decode_payload:
  "base64UrlDecode sample_runtime later_payload_segment
     = ''{'' @ dq @ ''userId'' @ dq @ '':'' @ dq @ ''1'' @ dq @ '','' @ dq @ ''issuedAt'' @ dq @ '':5000,''
         @ dq @ ''expiresAt'' @ dq @ '':86405000}''"
  by (simp add: base64UrlDecode_def sample_runtime_def base64url_eval later_payload_segment_def
      dq_def char_of_def bit_0)

lemma later_parse_payload:
  "JSON_parse sample_runtime
     (''{'' @ dq @ ''userId'' @ dq @ '':'' @ dq @ ''1'' @ dq @ '','' @ dq @ ''issuedAt'' @ dq @ '':5000,''
         @ dq @ ''expiresAt'' @ dq @ '':86405000}'') = Some later_payload"
  by (simp add: sample_runtime_def sample_parse_def dq_def parseInt_def later_payload_def)

lemma later_payloadRoundTrips: "payloadRoundTrips sample_runtime later_payload"
  unfolding payloadRoundTrips_def later_encode_payload later_decode_payload later_parse_payload
  by (rule refl)



lemma sample_salt_hex: "toString_hex sample_salt = sample_salt_hex"
  by (simp add: sample_salt_def sample_salt_hex_def toString_hex_Cons toString_hex_Nil hexDigit_def)

lemma sample_sha256: "sha256 sample_runtime (sample_password @ sample_salt_hex) = sample_digest"
  by (simp add: sample_runtime_def sample_checksum_def sample_salt_hex_def sample_digest_def
      sample_password_def)

lemma sample_sha256_other: "sha256 sample_runtime (wrong_password @ sample_salt_hex) \<noteq> sample_digest"
  by (simp add: sample_runtime_def sample_checksum_def sample_salt_hex_def sample_digest_def
      wrong_password_def)

lemma sample_password_not_empty: "sample_password \<noteq> []"
  by (simp add: sample_password_def)

lemma sample_hashPassword: "hashPassword sample_runtime sample_salt sample_password = Inr sample_hashed"
  unfolding hashPassword_Inr[OF sample_password_not_empty] sample_salt_hex sample_sha256 sample_hashed_def
  by (rule refl)

lemma sample_verifyPassword: "verifyPassword sample_runtime sample_password sample_hashed"
  unfolding sample_hashed_def sample_salt_hex[symmetric] verifyPassword_record
  unfolding sample_salt_hex sample_sha256
  by (simp add: sample_salt_def sample_digest_def)

lemma sample_verifyPassword_other: "\<not> verifyPassword sample_runtime wrong_password sample_hashed"
  unfolding sample_hashed_def sample_salt_hex[symmetric] verifyPassword_record
  unfolding sample_salt_hex
  by (simp add: sample_sha256_other)

lemmas password_eval = validatePasswordStrength_def pushIf_def MIN_PASSWORD_LENGTH_def
  MAX_PASSWORD_LENGTH_def isUpper_def isLower_def isDigit_def isSpecial_def specialCharacters_def
  dotMatches_def commonPasswords_def toLowerCase_def toLowerCase_unit_def upperUnits_def lowerUnits_def

lemma sample_password_valid: "validatePasswordStrength sample_password = \<lparr>isValid = True, errors = []\<rparr>"
  by (simp add: password_eval sample_password_def)

lemma sample_create:
  "create new_InMemoryUserRepository sample_registration sample_hashed 900
     = (sample_user, userRepository sample_world)"
  by (simp add: create_def generateId_def new_InMemoryUserRepository_def sample_registration_def
      sample_user_def sample_world_def Let_def)

lemma sample_findByEmail: "findByEmail (userRepository sample_world) ''test@example.com'' = Some sample_user"
  by (simp add: findByEmail_def sample_world_def sample_user_def)

lemma sample_findByEmail_unknown: "findByEmail (userRepository sample_world) ''nonexistent@example.com'' = None"
  by (simp add: findByEmail_def sample_world_def sample_user_def)

lemma sample_findById: "findById (userRepository sample_world) ''1'' = Some sample_user"
  by (simp add: findById_def sample_world_def)

lemma sample_user_fields:
  "user_id sample_user = ''1''" "isActive sample_user" "hashedPassword sample_user = sample_hashed"
  by (simp_all add: sample_user_def)

lemma sample_tokenService: "tokenService sample_world = sample_service" "tokenService empty_world = sample_service"
  by (simp_all add: sample_world_def empty_world_def)

lemma sample_register:
  "register sample_runtime empty_world sample_registration sample_salt 900 1000 1001
     = (Inr \<lparr>result_user = toUserResponse sample_user, result_token = sample_token,
             result_expiresAt = 86401001\<rparr>, sample_world)"
proof -
  have 1: "reg_password sample_registration = sample_password"
    "reg_email sample_registration = ''test@example.com''"
    "reg_username sample_registration = ''testuser''"
    by (simp_all add: sample_registration_def)
  have 2: "findByEmail new_InMemoryUserRepository ''test@example.com'' = None"
    "findByUsername new_InMemoryUserRepository ''testuser'' = None"
    "userRepository empty_world = new_InMemoryUserRepository"
    by (simp_all add: findByEmail_def findByUsername_def empty_world_def new_InMemoryUserRepository_def)
  have 3: "empty_world\<lparr>userRepository := userRepository sample_world\<rparr> = sample_world"
    by (simp add: empty_world_def sample_world_def)
  show ?thesis
    unfolding register_def 1 sample_password_valid
    by (simp add: 2 3 sample_hashPassword sample_create sample_user_fields sample_tokenService
        sample_generateToken getTokenExpiration_def expirationHours_def)
qed

lemma sample_updateLastLogin:
  "updateLastLogin (userRepository sample_world) ''1'' 4000 4001 = Inr (userRepository logged_in_world)"
  by (simp add: updateLastLogin_def sample_world_def logged_in_world_def sample_user_def)

lemma sample_login:
  "login sample_runtime sample_world \<lparr>login_email = ''test@example.com'', login_password = sample_password\<rparr>
       4000 4001 5000 5001
     = (Inr \<lparr>result_user = toUserResponse sample_user, result_token = later_token,
             result_expiresAt = 86405001\<rparr>, logged_in_world)"
proof -
  have "sample_world\<lparr>userRepository := userRepository logged_in_world\<rparr> = logged_in_world"
    by (simp add: logged_in_world_def sample_world_def)
  then show ?thesis
    by (simp add: login_def sample_findByEmail sample_user_fields sample_verifyPassword
        sample_updateLastLogin sample_tokenService later_generateToken getTokenExpiration_def
        expirationHours_def)
qed

lemma sample_refreshToken:
  "refreshToken sample_runtime sample_world sample_token 2000 5000 5001
     = (Inr \<lparr>result_user = toUserResponse sample_user, result_token = later_token,
             result_expiresAt = 86405001\<rparr>, sample_world)"
  by (simp add: refreshToken_def sample_tokenService sample_validateToken sample_findById
      sample_user_fields later_generateToken getTokenExpiration_def expirationHours_def)

lemma sample_setActive:
  "setActive (userRepository sample_world) ''1'' False 3000 = Inr (userRepository deactivated_world)"
  by (simp add: setActive_def sample_world_def deactivated_world_def)

lemma sample_delete_user:
  "delete_user (userRepository sample_world) ''1'' = userRepository deleted_world"
  by (simp add: delete_user_def Map_delete_def sample_world_def deleted_world_def)

section \<open>The password policy and the two comparisons\<close>

lemma validatePasswordStrength_errors:
  "errors (validatePasswordStrength password) =
     (if length password < 8 then [''Password must be at least 8 characters long''] else [])
     @ (if length password > 128 then [''Password must be no more than 128 characters long''] else [])
     @ (if \<exists>c \<in> set password. isUpper c then []
        else [''Password must contain at least one uppercase letter''])
     @ (if \<exists>c \<in> set password. isLower c then []
        else [''Password must contain at least one lowercase letter''])
     @ (if \<exists>c \<in> set password. isDigit c then []
        else [''Password must contain at least one number''])
     @ (if \<exists>c \<in> set password. isSpecial c then []
        else [''Password must contain at least one special character''])
     @ (if hasTripleRepeat password
        then [''Password cannot contain more than 2 consecutive identical characters''] else [])
     @ (if \<exists>common \<in> set commonPasswords. includes_str (toLowerCase password) common
        then [''Password cannot contain common words or patterns''] else [])"
  by (simp add: validatePasswordStrength_def pushIf_def Let_def MIN_PASSWORD_LENGTH_def
      MAX_PASSWORD_LENGTH_def list_ex_iff)

lemma validatePasswordStrength_isValid:
  "isValid (validatePasswordStrength password) =
     (8 \<le> length password \<and> length password \<le> 128
      \<and> (\<exists>c \<in> set password. isUpper c) \<and> (\<exists>c \<in> set password. isLower c)
      \<and> (\<exists>c \<in> set password. isDigit c) \<and> (\<exists>c \<in> set password. isSpecial c)
      \<and> \<not> hasTripleRepeat password
      \<and> \<not> (\<exists>common \<in> set commonPasswords. includes_str (toLowerCase password) common))"
proof -
  have "isValid (validatePasswordStrength password) = (errors (validatePasswordStrength password) = [])"
    by (simp add: validatePasswordStrength_def Let_def)
  then show ?thesis
    unfolding validatePasswordStrength_errors by (auto split: if_splits)
qed

lemma hasTripleRepeat_containsTripleRun:
  "\<forall>c \<in> set password. dotMatches c \<Longrightarrow> hasTripleRepeat password = containsTripleRun password"
  by (induction password rule: hasTripleRepeat.induct) auto

lemma password_examples:
  "validatePasswordStrength ''Ab1!cdef'' = \<lparr>isValid = True, errors = []\<rparr>"
  "validatePasswordStrength ''password'' =
     \<lparr>isValid = False,
      errors = [''Password must contain at least one uppercase letter'',
                ''Password must contain at least one number'',
                ''Password must contain at least one special character'',
                ''Password cannot contain common words or patterns'']\<rparr>"
  "validatePasswordStrength ''aaa1A!bb'' =
     \<lparr>isValid = False,
      errors = [''Password cannot contain more than 2 consecutive identical characters'']\<rparr>"
  by (simp_all add: password_eval)

lemma digestComparison_reads_record:
  "salt16 \<noteq> [] \<Longrightarrow> digest \<noteq> [] \<Longrightarrow>
     digestComparison_reads rt candidate (toString_hex salt16 @ '':'' @ toString_hex digest) =
       (if length (sha256 rt (candidate @ toString_hex salt16)) = length digest then length digest else 0)"
  unfolding digestComparison_reads_def split_record
  by (auto simp: Let_def toString_hex_empty Buffer_from_hex_toString_hex timingSafeEqual_reads_def)



section \<open>Claims\<close>

text \<open>
  C1. Once \<open>revokeToken\<close> has been called on a token, every later \<open>validateToken\<close> of it
  throws \<open>Token has been revoked\<close> (the spec's \<open>RevokedError\<close>), whatever the runtime, the
  clock and the operations made on the service in between: the check comes first, so
  neither the signature nor the expiry is looked at, and no operation removes a token
  from the revocation set. It is the same one level up: after \<open>logout\<close>, whatever is
  registered, logged in, validated, refreshed or logged out next,
  \<open>AuthService.validateToken\<close> of the token throws \<open>Token has been revoked\<close>.
\<close>

theorem C1_revoked_forever:
  "token \<in> revokedTokens (token_run (revokeToken svc token) ops)
   \<and> validateToken rt (token_run (revokeToken svc token) ops) token now
       = Inl (Error ''Token has been revoked'')
   \<and> revokedTokens svc \<subseteq> revokedTokens (token_run svc ops)
   \<and> validateToken_auth rt (auth_run rt (logout w token) calls) token now
       = (Inl (Error ''Token has been revoked''), auth_run rt (logout w token) calls)
   \<and> revokedTokens (tokenService w) \<subseteq> revokedTokens (tokenService (auth_run rt w calls))"
proof -
  have "token \<in> revokedTokens (revokeToken svc token)"
    by (simp add: revokeToken_def)
  then have 1: "token \<in> revokedTokens (token_run (revokeToken svc token) ops)"
    by (rule revoked_token_run)
  then have 2: "validateToken rt (token_run (revokeToken svc token) ops) token now
       = Inl (Error ''Token has been revoked'')"
    by (simp add: validateToken_def)
  have 3: "revokedTokens svc \<subseteq> revokedTokens (token_run svc ops)"
    using revoked_token_run by blast
  have "token \<in> revokedTokens (tokenService (logout w token))"
    by (simp add: logout_def revokeToken_def)
  then have "token \<in> revokedTokens (tokenService (auth_run rt (logout w token) calls))"
    by (rule revoked_auth_run)
  then have 4: "validateToken_auth rt (auth_run rt (logout w token) calls) token now
       = (Inl (Error ''Token has been revoked''), auth_run rt (logout w token) calls)"
    by (rule validateToken_auth_revoked)
  have 5: "revokedTokens (tokenService w) \<subseteq> revokedTokens (tokenService (auth_run rt w calls))"
    using revoked_auth_run by blast
  from 1 2 3 4 5 show ?thesis by simp
qed

theorem C1_revoked_forever_witness:
  "validateToken sample_runtime
     (token_run (revokeToken sample_service sample_token)
        [GenerateToken ''1'' 2000, ValidateToken sample_token 3000, GetTokenExpiration 4000,
         RevokeToken later_token])
     sample_token 5000 = Inl (Error ''Token has been revoked'')
   \<and> validateToken sample_runtime
     (token_run (revokeToken sample_service sample_token)
        [GenerateToken ''1'' 2000, ValidateToken sample_token 3000, GetTokenExpiration 4000,
         RevokeToken later_token])
     sample_token 90000000 = Inl (Error ''Token has been revoked'')
   \<and> fst (validateToken_auth sample_runtime
     (auth_run sample_runtime (logout sample_world sample_token)
        [RefreshToken sample_token 2000 5000 5001,
         Login \<lparr>login_email = ''test@example.com'', login_password = sample_password\<rparr> 4000 4001 5000 5001,
         ValidateTokenAuth later_token 6000, Logout later_token])
     sample_token 7000) = Inl (Error ''Token has been revoked'')"
  using C1_revoked_forever [of sample_token sample_service
      "[GenerateToken ''1'' 2000, ValidateToken sample_token 3000, GetTokenExpiration 4000,
        RevokeToken later_token]" sample_runtime 5000 sample_world
      "[RefreshToken sample_token 2000 5000 5001,
        Login \<lparr>login_email = ''test@example.com'', login_password = sample_password\<rparr> 4000 4001 5000 5001,
        ValidateTokenAuth later_token 6000, Logout later_token]"]
    C1_revoked_forever [of sample_token sample_service
      "[GenerateToken ''1'' 2000, ValidateToken sample_token 3000, GetTokenExpiration 4000,
        RevokeToken later_token]" sample_runtime 90000000 sample_world "[]"]
    C1_revoked_forever [of sample_token sample_service "[]" sample_runtime 7000 sample_world
      "[RefreshToken sample_token 2000 5000 5001,
        Login \<lparr>login_email = ''test@example.com'', login_password = sample_password\<rparr> 4000 4001 5000 5001,
        ValidateTokenAuth later_token 6000, Logout later_token]"]
  by (metis fst_conv)

text \<open>
  C2, as amended. A token produced by \<open>generateToken\<close> for a user at time \<open>t0\<close> carries
  \<open>expiresAt = t0 + 24 h\<close>. When the runtime's codecs give its payload back and the
  token is not revoked, \<open>validateToken\<close> returns the user's id at every check time up
  to and including \<open>t0 + 24 h\<close>, and throws \<open>Token has expired\<close> (the spec's
  \<open>ExpiredError\<close>) at every check time after it: the code compares with \<open>>\<close>, so the
  instant \<open>t0 + 24 h\<close> itself is still valid.
\<close>

theorem C2_issue_then_validate:
  assumes "payloadRoundTrips rt \<lparr>userId = uid, issuedAt = t0, expiresAt = t0 + 24 * 60 * 60 * 1000\<rparr>"
    and "generateToken rt svc uid t0 \<notin> revokedTokens svc"
  shows "decodeToken rt svc (generateToken rt svc uid t0)
           = Inr \<lparr>userId = uid, issuedAt = t0, expiresAt = t0 + 24 * 60 * 60 * 1000\<rparr>
         \<and> validateToken rt svc (generateToken rt svc uid t0) now
           = (if now > t0 + 24 * 60 * 60 * 1000 then Inl (Error ''Token has expired'') else Inr uid)"
  using assms
    decodeToken_createToken [of rt "\<lparr>userId = uid, issuedAt = t0, expiresAt = t0 + 86400000\<rparr>" svc]
  by (simp add: validateToken_def generateToken_createToken)

theorem C2_issue_then_validate_witness:
  "validateToken sample_runtime sample_service
     (generateToken sample_runtime sample_service ''1'' 1000) 1000 = Inr ''1''
   \<and> validateToken sample_runtime sample_service
     (generateToken sample_runtime sample_service ''1'' 1000) 86401000 = Inr ''1''
   \<and> validateToken sample_runtime sample_service
     (generateToken sample_runtime sample_service ''1'' 1000) 86401001
       = Inl (Error ''Token has expired'')"
proof -
  have rt: "payloadRoundTrips sample_runtime
              \<lparr>userId = ''1'', issuedAt = 1000, expiresAt = 1000 + 24 * 60 * 60 * 1000\<rparr>"
    using sample_payloadRoundTrips by (simp add: sample_payload_def)
  have nr: "generateToken sample_runtime sample_service ''1'' 1000 \<notin> revokedTokens sample_service"
    by (simp add: sample_not_revoked)
  from C2_issue_then_validate [OF rt nr, of 1000] C2_issue_then_validate [OF rt nr, of 86401000]
    C2_issue_then_validate [OF rt nr, of 86401001]
  show ?thesis by simp
qed

text \<open>
  The claim as stated fails at the check time \<open>t0 + 24 h\<close>: the token issued at time
  1000 is still accepted at time \<open>1000 + 24 h\<close>.
\<close>

theorem C2_expiry_instant_counterexample:
  "validateToken sample_runtime sample_service
     (generateToken sample_runtime sample_service ''1'' 1000) (1000 + 24 * 60 * 60 * 1000)
   = Inr ''1''"
  by (simp add: sample_generateToken sample_validateToken)




text \<open>
  C5. \<open>login\<close> with an email that no user has, and \<open>login\<close> with the email of a user
  and a password that \<open>verifyPassword\<close> rejects, throw the same error: an
  \<open>InvalidCredentialsError\<close>, whose constructor takes no argument, with the one message
  \<open>Invalid email or password\<close>; neither changes the state. The \<open>login\<close> handler of the
  controller answers both with status 401 and that message.
\<close>

theorem C5_login_failures_alike:
  assumes "findByEmail (userRepository w) unknownEmail = None"
    and "findByEmail (userRepository w) knownEmail = Some user"
    and "\<not> verifyPassword rt wrongPassword (hashedPassword user)"
  shows "login rt w \<lparr>login_email = unknownEmail, login_password = anyPassword\<rparr>
             loginNow updatedNow issueNow reportNow
           = (Inl InvalidCredentialsError, w)
       \<and> login rt w \<lparr>login_email = knownEmail, login_password = wrongPassword\<rparr>
             loginNow' updatedNow' issueNow' reportNow'
           = (Inl InvalidCredentialsError, w)
       \<and> name InvalidCredentialsError = ''InvalidCredentialsError''
       \<and> message InvalidCredentialsError = ''Invalid email or password''
       \<and> (unknownEmail \<noteq> [] \<and> anyPassword \<noteq> [] \<longrightarrow>
            login_handler rt w \<lparr>body_email = Some unknownEmail, body_password = Some anyPassword\<rparr>
                loginNow updatedNow issueNow reportNow
              = (Failure 401 ''Invalid email or password'', w))
       \<and> (knownEmail \<noteq> [] \<and> wrongPassword \<noteq> [] \<longrightarrow>
            login_handler rt w \<lparr>body_email = Some knownEmail, body_password = Some wrongPassword\<rparr>
                loginNow' updatedNow' issueNow' reportNow'
              = (Failure 401 ''Invalid email or password'', w))"
proof -
  have 1: "login rt w \<lparr>login_email = unknownEmail, login_password = anyPassword\<rparr>
             loginNow updatedNow issueNow reportNow
           = (Inl InvalidCredentialsError, w)"
    using assms(1) by (simp add: login_def)
  have 2: "login rt w \<lparr>login_email = knownEmail, login_password = wrongPassword\<rparr>
             loginNow' updatedNow' issueNow' reportNow'
           = (Inl InvalidCredentialsError, w)"
    using assms(2,3) by (simp add: login_def)
  from 1 2 show ?thesis
    by (simp add: login_handler_def validateLoginData_def)
qed

theorem C5_login_failures_alike_witness:
  "login sample_runtime sample_world
       \<lparr>login_email = ''nonexistent@example.com'', login_password = sample_password\<rparr>
       4000 4001 5000 5001
     = (Inl InvalidCredentialsError, sample_world)
   \<and> login sample_runtime sample_world
       \<lparr>login_email = ''test@example.com'', login_password = wrong_password\<rparr>
       4000 4001 5000 5001
     = (Inl InvalidCredentialsError, sample_world)
   \<and> login_handler sample_runtime sample_world
       \<lparr>body_email = Some ''nonexistent@example.com'', body_password = Some sample_password\<rparr>
       4000 4001 5000 5001
     = (Failure 401 ''Invalid email or password'', sample_world)
   \<and> login_handler sample_runtime sample_world
       \<lparr>body_email = Some ''test@example.com'', body_password = Some wrong_password\<rparr>
       4000 4001 5000 5001
     = (Failure 401 ''Invalid email or password'', sample_world)"
proof -
  have wrong: "\<not> verifyPassword sample_runtime wrong_password (hashedPassword sample_user)"
    using sample_verifyPassword_other by (simp add: sample_user_fields)
  have ne: "''nonexistent@example.com'' \<noteq> [] \<and> sample_password \<noteq> []
      \<and> ''test@example.com'' \<noteq> [] \<and> wrong_password \<noteq> []"
    by (simp add: sample_password_def wrong_password_def)
  from C5_login_failures_alike [OF sample_findByEmail_unknown sample_findByEmail wrong,
      of sample_password 4000 4001 5000 5001 4000 4001 5000 5001] ne
  show ?thesis by simp
qed

text \<open>
  C6. For a non-empty password, \<open>hashPassword\<close> returns the record \<open>salt:digest\<close>; with
  the 16 bytes of salt and the 32 bytes of digest that \<open>randomBytes(16)\<close> and SHA-256
  give, \<open>verifyPassword\<close> of the same password against it is true; and
  \<open>verifyPassword\<close> of any other password is false when its salted digest differs
  from the stored one (no collision of the digest).
\<close>

theorem C6_verify_after_hash:
  assumes "password \<noteq> []"
  shows "hashPassword rt salt16 password
           = Inr (toString_hex salt16 @ '':'' @ toString_hex (sha256 rt (password @ toString_hex salt16)))
       \<and> (length salt16 = 16 \<and> length (sha256 rt (password @ toString_hex salt16)) = 32 \<longrightarrow>
            verifyPassword rt password
              (toString_hex salt16 @ '':'' @ toString_hex (sha256 rt (password @ toString_hex salt16))))
       \<and> (\<forall>other. sha256 rt (other @ toString_hex salt16) \<noteq> sha256 rt (password @ toString_hex salt16) \<longrightarrow>
            \<not> verifyPassword rt other
              (toString_hex salt16 @ '':'' @ toString_hex (sha256 rt (password @ toString_hex salt16))))"
  unfolding hashPassword_Inr[OF assms] verifyPassword_record by auto

theorem C6_verify_after_hash_witness:
  "hashPassword sample_runtime sample_salt sample_password = Inr sample_hashed
   \<and> verifyPassword sample_runtime sample_password sample_hashed
   \<and> \<not> verifyPassword sample_runtime wrong_password sample_hashed"
proof -
  have len: "length sample_salt = 16 \<and> length sample_digest = 32"
    by (simp add: sample_salt_def sample_digest_def)
  from C6_verify_after_hash [OF sample_password_not_empty, of sample_runtime sample_salt]
  show ?thesis
    unfolding sample_salt_hex sample_sha256 sample_hashed_def
    using len sample_sha256_other by blast
qed

text \<open>
  C7. \<open>AuthService.validateToken\<close> and the middleware's \<open>authenticate\<close> succeed only
  when the token validates and the user id it carries is, at that moment, the key of a
  user of the repository who is active; the response is that user's. When the token
  validates and the repository has no such user, the first throws \<open>UserNotFoundError\<close>
  and the second answers 401; when the user is not active, the first throws
  \<open>User account is deactivated\<close> and the second answers 403.
\<close>

theorem C7_store_decides:
  "(\<forall>resp w'. validateToken_auth rt w token now = (Inr resp, w') \<longrightarrow>
      (\<exists>uid user. validateToken rt (tokenService w) token now = Inr uid
         \<and> findById (userRepository w) uid = Some user \<and> isActive user
         \<and> resp = toUserResponse user))
   \<and> (\<forall>header resp. authenticate rt w header now = Next resp \<longrightarrow>
      (\<exists>presented uid user. extractToken header = Some presented
         \<and> validateToken rt (tokenService w) presented now = Inr uid
         \<and> findById (userRepository w) uid = Some user \<and> isActive user
         \<and> resp = toUserResponse user))
   \<and> (\<forall>uid. validateToken rt (tokenService w) token now = Inr uid
          \<and> findById (userRepository w) uid = None \<longrightarrow>
        validateToken_auth rt w token now = (Inl (UserNotFoundError uid), w)
        \<and> (\<forall>header. extractToken header = Some token \<and> token \<noteq> [] \<longrightarrow>
              authenticate rt w header now = Respond 401 ''Invalid authentication token''))
   \<and> (\<forall>uid user. validateToken rt (tokenService w) token now = Inr uid
          \<and> findById (userRepository w) uid = Some user \<and> \<not> isActive user \<longrightarrow>
        validateToken_auth rt w token now = (Inl (Error ''User account is deactivated''), w)
        \<and> (\<forall>header. extractToken header = Some token \<and> token \<noteq> [] \<longrightarrow>
              authenticate rt w header now = Respond 403 ''User account is deactivated''))"
proof (intro conjI allI impI)
  fix resp w'
  assume a: "validateToken_auth rt w token now = (Inr resp, w')"
  show "\<exists>uid user. validateToken rt (tokenService w) token now = Inr uid
         \<and> findById (userRepository w) uid = Some user \<and> isActive user
         \<and> resp = toUserResponse user"
  proof (cases "validateToken rt (tokenService w) token now")
    case (Inl e)
    with a show ?thesis by (simp add: validateToken_auth_def)
  next
    case (Inr uid)
    show ?thesis
    proof (cases "findById (userRepository w) uid")
      case None
      with a Inr show ?thesis by (simp add: validateToken_auth_def)
    next
      case (Some user)
      with a Inr show ?thesis by (simp add: validateToken_auth_def split: if_splits)
    qed
  qed
next
  fix header resp
  assume a: "authenticate rt w header now = Next resp"
  show "\<exists>presented uid user. extractToken header = Some presented
         \<and> validateToken rt (tokenService w) presented now = Inr uid
         \<and> findById (userRepository w) uid = Some user \<and> isActive user
         \<and> resp = toUserResponse user"
  proof (cases "extractToken header")
    case None
    with a show ?thesis by (simp add: authenticate_def)
  next
    case (Some presented)
    note p = this
    show ?thesis
    proof (cases "validateToken rt (tokenService w) presented now")
      case (Inl e)
      with a p show ?thesis by (simp add: authenticate_def split: if_splits)
    next
      case (Inr uid)
      show ?thesis
      proof (cases "findById (userRepository w) uid")
        case None
        with a p Inr show ?thesis by (simp add: authenticate_def split: if_splits)
      next
        case (Some user)
        with a p Inr show ?thesis by (simp add: authenticate_def split: if_splits)
      qed
    qed
  qed
qed (simp_all add: validateToken_auth_def authenticate_def)

theorem C7_store_decides_witness:
  "(\<exists>uid user. validateToken sample_runtime (tokenService sample_world) sample_token 2000 = Inr uid
       \<and> findById (userRepository sample_world) uid = Some user \<and> isActive user
       \<and> toUserResponse sample_user = toUserResponse user)
   \<and> validateToken_auth sample_runtime deleted_world sample_token 2000
        = (Inl (UserNotFoundError ''1''), deleted_world)
   \<and> authenticate sample_runtime deleted_world (Some (''Bearer '' @ sample_token)) 2000
        = Respond 401 ''Invalid authentication token''
   \<and> validateToken_auth sample_runtime deactivated_world sample_token 2000
        = (Inl (Error ''User account is deactivated''), deactivated_world)
   \<and> authenticate sample_runtime deactivated_world (Some (''Bearer '' @ sample_token)) 2000
        = Respond 403 ''User account is deactivated''"
proof -
  have ok: "validateToken_auth sample_runtime sample_world sample_token 2000
              = (Inr (toUserResponse sample_user), sample_world)"
    by (simp add: validateToken_auth_def sample_tokenService sample_validateToken sample_findById
        sample_user_fields)
  from C7_store_decides [of sample_runtime sample_world sample_token 2000] ok
  have 1: "\<exists>uid user. validateToken sample_runtime (tokenService sample_world) sample_token 2000 = Inr uid
       \<and> findById (userRepository sample_world) uid = Some user \<and> isActive user
       \<and> toUserResponse sample_user = toUserResponse user"
    by blast
  have bearer: "extractToken (Some (''Bearer '' @ sample_token)) = Some sample_token \<and> sample_token \<noteq> []"
    by (simp add: extractToken_def sample_token_def sample_header_segment_def sample_payload_segment_def)
  have missing: "validateToken sample_runtime (tokenService deleted_world) sample_token 2000 = Inr ''1''
       \<and> findById (userRepository deleted_world) ''1'' = None"
    by (simp add: sample_validateToken findById_def deleted_world_def)
  from C7_store_decides [of sample_runtime deleted_world sample_token 2000] missing bearer
  have 2: "validateToken_auth sample_runtime deleted_world sample_token 2000
        = (Inl (UserNotFoundError ''1''), deleted_world)
     \<and> authenticate sample_runtime deleted_world (Some (''Bearer '' @ sample_token)) 2000
        = Respond 401 ''Invalid authentication token''"
    by blast
  have inactive: "validateToken sample_runtime (tokenService deactivated_world) sample_token 2000 = Inr ''1''
       \<and> findById (userRepository deactivated_world) ''1''
            = Some (sample_user\<lparr>isActive := False, updatedAt := 3000\<rparr>)
       \<and> \<not> isActive (sample_user\<lparr>isActive := False, updatedAt := 3000\<rparr>)"
    by (simp add: sample_validateToken findById_def deactivated_world_def)
  from C7_store_decides [of sample_runtime deactivated_world sample_token 2000] inactive bearer
  have 3: "validateToken_auth sample_runtime deactivated_world sample_token 2000
        = (Inl (Error ''User account is deactivated''), deactivated_world)
     \<and> authenticate sample_runtime deactivated_world (Some (''Bearer '' @ sample_token)) 2000
        = Respond 403 ''User account is deactivated''"
    by blast
  from 1 2 3 show ?thesis by blast
qed

text \<open>
  C8. \<open>validatePasswordStrength\<close> evaluates every rule and collects every message
  (\<open>validatePasswordStrength_errors\<close>), and \<open>isValid\<close> holds exactly when no rule is
  violated (\<open>validatePasswordStrength_isValid\<close>); \<open>Ab1!cdef\<close> is valid and \<open>password\<close>
  is not (\<open>password_examples\<close>). The rule on runs is the regular expression
  \<open>/(.)\1{2,}/\<close>, whose dot matches no line terminator, so it agrees with ``no run of
  three identical characters'' on passwords without line terminators only
  (\<open>hasTripleRepeat_containsTripleRun\<close>): a password of eight characters with three line
  feeds in a row, sound otherwise, has such a run and is accepted with no message.
\<close>

theorem C8_line_feed_run_accepted:
  "length line_feed_password = 8
   \<and> containsTripleRun line_feed_password
   \<and> validatePasswordStrength line_feed_password = \<lparr>isValid = True, errors = []\<rparr>"
  by (simp add: line_feed_password_def password_eval)



text \<open>
  C10. In \<open>register\<close>, \<open>login\<close> and \<open>refreshToken\<close> the token is made by
  \<open>generateToken\<close> with one clock read, \<open>t1\<close>, and the \<open>expiresAt\<close> returned beside it by
  \<open>getTokenExpiration\<close> with the next, \<open>t2\<close>. The token carries \<open>t1 + 24 h\<close> (and
  decodes to it when the runtime's codecs give the payload back); the caller is told
  \<open>t2 + 24 h\<close>. The two agree exactly when \<open>t2 = t1\<close>, and for \<open>t1 < t2\<close> the reported
  time is strictly later than the one in the token.
\<close>

theorem C10_reported_expiry_from_second_read:
  assumes "register rt w userData salt16 createdNow t1 t2 = (Inr r, w')
         \<or> login rt w loginData loginNow updatedNow t1 t2 = (Inr r, w')
         \<or> refreshToken rt w token now t1 t2 = (Inr r, w')"
  shows "result_token r = createToken rt (tokenService w)
            \<lparr>userId = resp_id (result_user r), issuedAt = t1, expiresAt = t1 + 24 * 60 * 60 * 1000\<rparr>
       \<and> (payloadRoundTrips rt
            \<lparr>userId = resp_id (result_user r), issuedAt = t1, expiresAt = t1 + 24 * 60 * 60 * 1000\<rparr> \<longrightarrow>
          decodeToken rt (tokenService w) (result_token r) =
            Inr \<lparr>userId = resp_id (result_user r), issuedAt = t1, expiresAt = t1 + 24 * 60 * 60 * 1000\<rparr>)
       \<and> result_expiresAt r = t2 + 24 * 60 * 60 * 1000
       \<and> (result_expiresAt r = t1 + 24 * 60 * 60 * 1000) = (t2 = t1)
       \<and> (t1 < t2 \<longrightarrow> t1 + 24 * 60 * 60 * 1000 < result_expiresAt r)"
proof -
  from assms have "\<exists>user. result_user r = toUserResponse user
      \<and> result_token r = generateToken rt (tokenService w) (user_id user) t1
      \<and> result_expiresAt r = getTokenExpiration t2"
    using register_Inr [of rt w userData salt16 createdNow t1 t2 r w']
      login_Inr [of rt w loginData loginNow updatedNow t1 t2 r w']
      refreshToken_Inr [of rt w token now t1 t2 r w']
    by blast
  then obtain user where u: "result_user r = toUserResponse user"
    and t: "result_token r = generateToken rt (tokenService w) (user_id user) t1"
    and e: "result_expiresAt r = getTokenExpiration t2"
    by blast
  from u have i: "resp_id (result_user r) = user_id user"
    by (simp add: toUserResponse_def)
  from t i have 1: "result_token r = createToken rt (tokenService w)
            \<lparr>userId = resp_id (result_user r), issuedAt = t1, expiresAt = t1 + 24 * 60 * 60 * 1000\<rparr>"
    by (simp add: generateToken_createToken)
  have 2: "payloadRoundTrips rt
            \<lparr>userId = resp_id (result_user r), issuedAt = t1, expiresAt = t1 + 24 * 60 * 60 * 1000\<rparr> \<longrightarrow>
          decodeToken rt (tokenService w) (result_token r) =
            Inr \<lparr>userId = resp_id (result_user r), issuedAt = t1, expiresAt = t1 + 24 * 60 * 60 * 1000\<rparr>"
    unfolding 1 using decodeToken_createToken by blast
  from e have 3: "result_expiresAt r = t2 + 24 * 60 * 60 * 1000"
    by (simp add: getTokenExpiration_def expirationHours_def)
  from 1 2 3 show ?thesis by simp
qed

theorem C10_reported_expiry_from_second_read_witness:
  "sample_token = createToken sample_runtime sample_service
      \<lparr>userId = ''1'', issuedAt = 1000, expiresAt = 1000 + 24 * 60 * 60 * 1000\<rparr>
   \<and> (86401001::int) = 1001 + 24 * 60 * 60 * 1000
   \<and> later_token = createToken sample_runtime sample_service
      \<lparr>userId = ''1'', issuedAt = 5000, expiresAt = 5000 + 24 * 60 * 60 * 1000\<rparr>
   \<and> decodeToken sample_runtime sample_service later_token
      = Inr \<lparr>userId = ''1'', issuedAt = 5000, expiresAt = 5000 + 24 * 60 * 60 * 1000\<rparr>
   \<and> (86405001::int) = 5001 + 24 * 60 * 60 * 1000"
proof -
  have i: "resp_id (toUserResponse sample_user) = ''1''"
    by (simp add: toUserResponse_def sample_user_fields)
  have rt: "payloadRoundTrips sample_runtime
              \<lparr>userId = ''1'', issuedAt = 5000, expiresAt = 5000 + 24 * 60 * 60 * 1000\<rparr>"
    using later_payloadRoundTrips by (simp add: later_payload_def)
  from C10_reported_expiry_from_second_read [OF disjI1, OF sample_register]
  have 1: "sample_token = createToken sample_runtime sample_service
      \<lparr>userId = ''1'', issuedAt = 1000, expiresAt = 1000 + 24 * 60 * 60 * 1000\<rparr>
    \<and> (86401001::int) = 1001 + 24 * 60 * 60 * 1000"
    by (simp add: i sample_tokenService)
  from C10_reported_expiry_from_second_read [OF disjI2, OF disjI1, OF sample_login]
  have 2: "later_token = createToken sample_runtime sample_service
      \<lparr>userId = ''1'', issuedAt = 5000, expiresAt = 5000 + 24 * 60 * 60 * 1000\<rparr>
    \<and> (86405001::int) = 5001 + 24 * 60 * 60 * 1000"
    by (simp add: i sample_tokenService)
  from C10_reported_expiry_from_second_read [OF disjI2, OF disjI2, OF sample_refreshToken] rt
  have 3: "decodeToken sample_runtime sample_service later_token
      = Inr \<lparr>userId = ''1'', issuedAt = 5000, expiresAt = 5000 + 24 * 60 * 60 * 1000\<rparr>"
    by (simp add: i sample_tokenService)
  from 1 2 3 show ?thesis by simp
qed

end
